theory Spec2Isabelle
  imports Complex_Main
begin

section \<open>Vectors and matrices of the notebook\<close>

text \<open>
  The notebook \<^verbatim>\<open>code/chapter6/chapter6_3_1.ipynb\<close> works on numpy arrays and
  cvxopt matrices. A one-dimensional array and an \<open>(I, 1)\<close> column are lists of numbers,
  a two-dimensional array is the list of its rows. Floating-point numbers are read as
  real numbers.
\<close>

type_synonym vec = "real list"
type_synonym mat = "real list list"

definition is_mat :: "nat \<Rightarrow> nat \<Rightarrow> mat \<Rightarrow> bool" where
  \<comment> \<open>the array has shape \<open>(r, c)\<close>\<close>
  "is_mat r c M \<longleftrightarrow> length M = r \<and> list_all (\<lambda>row. length row = c) M"

definition dot :: "vec \<Rightarrow> vec \<Rightarrow> real" where
  \<comment> \<open>\<^verbatim>\<open>x @ y\<close> of two one-dimensional arrays\<close>
  "dot xs ys = sum_list (map2 (*) xs ys)"

definition mat_vec :: "mat \<Rightarrow> vec \<Rightarrow> vec" where
  \<comment> \<open>\<^verbatim>\<open>M @ x\<close>\<close>
  "mat_vec M x = map (\<lambda>row. dot row x) M"

definition col :: "mat \<Rightarrow> nat \<Rightarrow> vec" where
  "col M j = map (\<lambda>row. row ! j) M"

definition mat_T :: "nat \<Rightarrow> mat \<Rightarrow> mat" where
  \<comment> \<open>\<^verbatim>\<open>M.T\<close> of an array with \<open>c\<close> columns\<close>
  "mat_T c M = map (col M) [0..<c]"

definition vec_mat :: "nat \<Rightarrow> vec \<Rightarrow> mat \<Rightarrow> vec" where
  \<comment> \<open>\<^verbatim>\<open>x.T @ M\<close>: the row vector times a matrix with \<open>c\<close> columns\<close>
  "vec_mat c x M = map (\<lambda>j. dot x (col M j)) [0..<c]"

definition mat_mul :: "nat \<Rightarrow> mat \<Rightarrow> mat \<Rightarrow> mat" where
  \<comment> \<open>\<^verbatim>\<open>A @ B\<close>, where \<open>B\<close> has \<open>c\<close> columns\<close>
  "mat_mul c A B = map (\<lambda>row. vec_mat c row B) A"

definition eye :: "nat \<Rightarrow> mat" where
  \<comment> \<open>\<^verbatim>\<open>np.eye(n)\<close>\<close>
  "eye n = map (\<lambda>i. map (\<lambda>j. if i = j then 1 else 0) [0..<n]) [0..<n]"

definition zeros :: "nat \<Rightarrow> nat \<Rightarrow> mat" where
  \<comment> \<open>\<^verbatim>\<open>np.zeros((r, c))\<close>\<close>
  "zeros r c = replicate r (replicate c 0)"

definition mat_neg :: "mat \<Rightarrow> mat" where
  "mat_neg M = map (map uminus) M"

definition mat_scale :: "real \<Rightarrow> mat \<Rightarrow> mat" where
  "mat_scale s M = map (map ((*) s)) M"

definition vstack :: "mat \<Rightarrow> mat \<Rightarrow> mat" where
  \<comment> \<open>\<^verbatim>\<open>np.vstack((A, B))\<close>\<close>
  "vstack A B = A @ B"

definition hstack :: "mat \<Rightarrow> mat \<Rightarrow> mat" where
  \<comment> \<open>\<^verbatim>\<open>np.hstack((A, B))\<close> of two arrays with the same number of rows\<close>
  "hstack A B = map2 (@) A B"

definition set_block :: "mat \<Rightarrow> nat \<Rightarrow> nat \<Rightarrow> mat \<Rightarrow> mat" where
  \<comment> \<open>the matrix \<open>M\<close> with the block \<open>B\<close> written at row \<open>r\<close>, column \<open>k\<close>\<close>
  "set_block M r k B =
     take r M @ map2 (\<lambda>row brow. take k row @ brow @ drop (k + length brow) row) (drop r M) B"

definition vec_sub :: "vec \<Rightarrow> vec \<Rightarrow> vec" where
  "vec_sub xs ys = map2 (-) xs ys"

definition vec_le :: "vec \<Rightarrow> vec \<Rightarrow> bool" where
  \<comment> \<open>elementwise \<open>\<le>\<close> of two vectors of the same length\<close>
  "vec_le xs ys \<longleftrightarrow> length xs = length ys \<and> list_all2 (\<le>) xs ys"

definition norm2 :: "vec \<Rightarrow> real" where
  "norm2 v = sqrt (dot v v)"

section \<open>Errors and array values of the notebook\<close>

datatype error = TypeError | ValueError | LinAlgError

text \<open>
  Subtraction of two \<open>(n, 1)\<close> and \<open>(m, 1)\<close> columns broadcasts when one of them has a
  single row and raises \<^verbatim>\<open>ValueError\<close> when the shapes do not fit.
\<close>

definition np_sub :: "vec \<Rightarrow> vec \<Rightarrow> error + vec" where
  "np_sub xs ys =
     (if length xs = length ys then Inr (vec_sub xs ys)
      else if length xs = 1 then Inr (map (\<lambda>y. hd xs - y) ys)
      else if length ys = 1 then Inr (map (\<lambda>x. x - hd ys) xs)
      else Inl ValueError)"

definition np_max :: "vec \<Rightarrow> error + real" where
  \<comment> \<open>\<^verbatim>\<open>np.max\<close> raises on an array without elements\<close>
  "np_max v = (case v of [] \<Rightarrow> Inl ValueError | x # xs \<Rightarrow> Inr (fold max xs x))"

definition np_quad :: "mat \<Rightarrow> vec \<Rightarrow> error + real" where
  \<comment> \<open>\<^verbatim>\<open>(x.T @ M @ x)[0, 0]\<close> for a column \<open>x\<close>: both products need \<open>M\<close> of shape
      \<open>(n, n)\<close> with \<open>n\<close> the length of \<open>x\<close>\<close>
  "np_quad M x =
     (if is_mat (length x) (length x) M then Inr (dot (vec_mat (length x) x M) x)
      else Inl ValueError)"

definition np_dot :: "vec \<Rightarrow> vec \<Rightarrow> error + real" where
  \<comment> \<open>\<^verbatim>\<open>(means @ x)[0]\<close> for a one-dimensional \<open>means\<close> and a column \<open>x\<close>\<close>
  "np_dot m x = (if length m = length x then Inr (dot m x) else Inl ValueError)"

section \<open>Cell 3: the portfolio constraints\<close>

text \<open>
  \<^verbatim>\<open>G = np.vstack((np.eye(I), -np.eye(I)))\<close>,
  \<^verbatim>\<open>h = np.hstack((0.25 * np.ones(I), np.zeros(I)))\<close>.
\<close>

definition G_bounds :: "nat \<Rightarrow> mat" where
  "G_bounds I = vstack (eye I) (mat_neg (eye I))"

definition h_bounds :: "nat \<Rightarrow> vec" where
  "h_bounds I = map ((*) 0.25) (replicate I 1) @ replicate I 0"

section \<open>The cone program handed to the solver\<close>

text \<open>
  The arguments of \<^verbatim>\<open>socp(c, Gl, hl, Gq, hq, A, b)\<close>, and what the call returns: a
  dictionary whose entry \<^verbatim>\<open>'status'\<close> is one of four strings and whose entry
  \<^verbatim>\<open>'x'\<close> is a vector or \<^verbatim>\<open>None\<close>. The fields of the program carry the names of
  the arguments, prefixed.
\<close>

record cone_program =
  cp_c :: vec
  cp_Gl :: mat
  cp_hl :: vec
  cp_Gq :: "mat list"
  cp_hq :: "vec list"
  cp_A :: mat
  cp_b :: vec

datatype solver_status = Optimal | PrimalInfeasible | DualInfeasible | Unknown

record solver_result =
  status :: solver_status
  sol_x :: "vec option"

text \<open>
  Modelled from the spec: the external cone-program solver (cvxopt's \<^verbatim>\<open>socp\<close>), whose
  code is not part of the repository. Its contract (section 6 of the specification): the
  objective \<open>c\<^sup>T x\<close> is minimised subject to \<open>Gl x \<le> hl\<close> elementwise, \<open>A x = b\<close>, and for
  each cone block \<open>(Gq\<^sub>k, hq\<^sub>k)\<close> the vector \<open>s = hq\<^sub>k - Gq\<^sub>k x\<close> has a first entry that
  bounds the Euclidean norm of its remaining entries.
\<close>

definition in_soc :: "vec \<Rightarrow> bool" where
  "in_soc s = (case s of [] \<Rightarrow> True | s0 # s1 \<Rightarrow> norm2 s1 \<le> s0)"

definition cone_ok :: "mat \<Rightarrow> vec \<Rightarrow> vec \<Rightarrow> bool" where
  "cone_ok Gk hk x = in_soc (vec_sub hk (mat_vec Gk x))"

definition socp_feasible :: "cone_program \<Rightarrow> vec \<Rightarrow> bool" where
  "socp_feasible P x \<longleftrightarrow>
     length x = length (cp_c P) \<and> vec_le (mat_vec (cp_Gl P) x) (cp_hl P)
       \<and> list_all2 (\<lambda>Gk hk. cone_ok Gk hk x) (cp_Gq P) (cp_hq P)
       \<and> mat_vec (cp_A P) x = cp_b P"

definition socp_optimal :: "cone_program \<Rightarrow> vec \<Rightarrow> bool" where
  "socp_optimal P x \<longleftrightarrow>
     socp_feasible P x \<and> (\<forall>y. socp_feasible P y \<longrightarrow> dot (cp_c P) x \<le> dot (cp_c P) y)"

section \<open>Cell 5: target risk optimization\<close>

text \<open>
  \<^verbatim>\<open>risk_target = np.sqrt(e_star.T @ cov @ e_star)[0, 0]\<close>,
  \<^verbatim>\<open>A = matrix(np.ones((1, I)))\<close>, \<^verbatim>\<open>b = matrix(np.array([1.]))\<close>,
  \<^verbatim>\<open>scalar = 100\<close>.
\<close>

definition risk_target_of :: "mat \<Rightarrow> vec \<Rightarrow> error + real" where
  "risk_target_of cov e_star =
     (case np_quad cov e_star of Inl e \<Rightarrow> Inl e | Inr q \<Rightarrow> Inr (sqrt q))"

definition A_budget :: "nat \<Rightarrow> mat" where
  "A_budget I = [replicate I 1]"

definition b_budget :: vec where
  "b_budget = [1]"

definition scalar :: real where
  "scalar = 100"

text \<open>
  \<^verbatim>\<open>L = -cholesky(scalar**2 * cov)\<close>. The factorisation is scipy's; it is a parameter
  here, returning the factor or raising \<^verbatim>\<open>LinAlgError\<close>.
\<close>

definition L_factor :: "(mat \<Rightarrow> error + mat) \<Rightarrow> mat \<Rightarrow> error + mat" where
  "L_factor cholesky cov =
     (case cholesky (mat_scale (scalar\<^sup>2) cov) of Inl e \<Rightarrow> Inl e | Inr U \<Rightarrow> Inr (mat_neg U))"

text \<open>
  \<^verbatim>\<open>Gq = [matrix(np.zeros((I + 1, I)))]\<close>, \<^verbatim>\<open>Gq[0][1:, 0:] = L\<close>: the slice has
  shape \<open>(I, I)\<close>, and assigning an array of another shape raises.
  \<^verbatim>\<open>hq = [matrix(np.zeros(I + 1))]\<close>, \<^verbatim>\<open>hq[0][0] = risk_target * scalar\<close>.
\<close>

definition Gq_risk :: "nat \<Rightarrow> mat \<Rightarrow> error + mat list" where
  "Gq_risk I L =
     (if is_mat I I L then Inr [set_block (zeros (I + 1) I) 1 0 L] else Inl TypeError)"

definition hq_cone :: "nat \<Rightarrow> real \<Rightarrow> vec" where
  "hq_cone I target = (replicate (I + 1) 0)[0 := target * scalar]"

text \<open>
  \<^verbatim>\<open>socp(c=matrix(-means * scalar), Gl=matrix(G), hl=matrix(h), Gq=Gq, hq=hq, A=A, b=b)\<close>
\<close>

definition risk_program ::
  "(mat \<Rightarrow> error + mat) \<Rightarrow> nat \<Rightarrow> vec \<Rightarrow> mat \<Rightarrow> mat \<Rightarrow> vec \<Rightarrow> real \<Rightarrow> error + cone_program" where
  "risk_program cholesky I means cov G h risk_target =
     (case L_factor cholesky cov of Inl e \<Rightarrow> Inl e | Inr L \<Rightarrow>
      (case Gq_risk I L of Inl e \<Rightarrow> Inl e | Inr Gq1 \<Rightarrow>
        Inr \<lparr>cp_c = map (\<lambda>m. - m * scalar) means, cp_Gl = G, cp_hl = h,
             cp_Gq = Gq1, cp_hq = [hq_cone I risk_target],
             cp_A = A_budget I, cp_b = b_budget\<rparr>))"

text \<open>
  \<^verbatim>\<open>e_star_risk = np.array(socp(...)['x'])\<close>. The status of the result is not read.
  \<^verbatim>\<open>np.array(None)\<close> does not raise: it is an array of no dimension that holds
  \<^verbatim>\<open>None\<close>.
\<close>

datatype np_array = NoneArray | Array vec

definition e_star_risk_of :: "solver_result \<Rightarrow> np_array" where
  "e_star_risk_of r = (case sol_x r of None \<Rightarrow> NoneArray | Some v \<Rightarrow> Array v)"

section \<open>Cells 7 to 10: target risk and tracking error constraint\<close>

text \<open>
  \<^verbatim>\<open>e_bm = np.ones((I, 1)) / I\<close>, \<^verbatim>\<open>te_pf = e_star_risk - e_bm\<close>,
  \<^verbatim>\<open>te_target = np.sqrt(te_pf.T @ cov @ te_pf)[0, 0]\<close>.
\<close>

definition e_bm :: "nat \<Rightarrow> vec" where
  "e_bm I = map (\<lambda>x. x / real I) (replicate I 1)"

definition te_target_of :: "nat \<Rightarrow> mat \<Rightarrow> vec \<Rightarrow> error + real" where
  "te_target_of I cov e_star_risk =
     (case np_sub e_star_risk (e_bm I) of Inl e \<Rightarrow> Inl e | Inr te_pf \<Rightarrow>
      (case np_quad cov te_pf of Inl e \<Rightarrow> Inl e | Inr q \<Rightarrow> Inr (sqrt q)))"

text \<open>
  \<^verbatim>\<open>benchmark_relation = np.hstack((np.eye(I), -np.eye(I)))\<close>,
  \<^verbatim>\<open>A = matrix(np.vstack((np.hstack((np.ones(I), np.zeros(I))), benchmark_relation)))\<close>,
  \<^verbatim>\<open>b = matrix(np.vstack(([[1.]], e_bm)))\<close>,
  \<^verbatim>\<open>G = np.hstack((G, np.zeros((G.shape[0], I))))\<close>.
  The benchmark is an argument of \<open>b_te\<close>; the notebook passes \<open>e_bm\<close>.
\<close>

definition benchmark_relation :: "nat \<Rightarrow> mat" where
  "benchmark_relation I = hstack (eye I) (mat_neg (eye I))"

definition A_te :: "nat \<Rightarrow> mat" where
  "A_te I = vstack [replicate I 1 @ replicate I 0] (benchmark_relation I)"

definition b_te :: "vec \<Rightarrow> vec" where
  "b_te bm = [1] @ bm"

definition G_te :: "nat \<Rightarrow> mat \<Rightarrow> mat" where
  "G_te I G = hstack G (zeros (length G) I)"

text \<open>
  \<^verbatim>\<open>Gq_base = matrix(np.zeros((I + 1, 2 * I)))\<close>,
  \<^verbatim>\<open>Gq2 = [copy(Gq_base), copy(Gq_base)]\<close>,
  \<^verbatim>\<open>Gq2[0][1:, 0:I] = L\<close>, \<^verbatim>\<open>Gq2[1][1:, I:] = L\<close>,
  \<^verbatim>\<open>hq2[0][0] = risk_target * scalar\<close>, \<^verbatim>\<open>hq2[1][0] = te_target * scalar\<close>.
\<close>

definition Gq_base :: "nat \<Rightarrow> mat" where
  "Gq_base I = zeros (I + 1) (2 * I)"

definition Gq2 :: "nat \<Rightarrow> mat \<Rightarrow> error + mat list" where
  "Gq2 I L =
     (if is_mat I I L
      then Inr [set_block (Gq_base I) 1 0 L, set_block (Gq_base I) 1 I L]
      else Inl TypeError)"

definition hq2 :: "nat \<Rightarrow> real \<Rightarrow> real \<Rightarrow> vec list" where
  "hq2 I risk_target te_target = [hq_cone I risk_target, hq_cone I te_target]"

text \<open>
  \<^verbatim>\<open>means2 = np.hstack((means, np.zeros(I)))\<close>,
  \<^verbatim>\<open>socp(c=matrix(-means2 * scalar), Gl=matrix(G), hl=matrix(h), Gq=Gq2, hq=hq2, A=A, b=b)\<close>,
  \<^verbatim>\<open>e_star_dual_risk = np.array(socp(...)['x'][0:I])\<close>: slicing \<^verbatim>\<open>None\<close> raises
  \<^verbatim>\<open>TypeError\<close>.
\<close>

definition means2 :: "nat \<Rightarrow> vec \<Rightarrow> vec" where
  "means2 I means = means @ replicate I 0"

definition te_program ::
  "(mat \<Rightarrow> error + mat) \<Rightarrow> nat \<Rightarrow> vec \<Rightarrow> mat \<Rightarrow> mat \<Rightarrow> vec \<Rightarrow> vec \<Rightarrow> real \<Rightarrow> real
     \<Rightarrow> error + cone_program" where
  "te_program cholesky I means cov G h bm risk_target te_target =
     (case L_factor cholesky cov of Inl e \<Rightarrow> Inl e | Inr L \<Rightarrow>
      (case Gq2 I L of Inl e \<Rightarrow> Inl e | Inr Gqs \<Rightarrow>
        Inr \<lparr>cp_c = map (\<lambda>m. - m * scalar) (means2 I means), cp_Gl = G_te I G, cp_hl = h,
             cp_Gq = Gqs, cp_hq = hq2 I risk_target te_target,
             cp_A = A_te I, cp_b = b_te bm\<rparr>))"

definition e_star_dual_risk_of :: "nat \<Rightarrow> solver_result \<Rightarrow> error + vec" where
  "e_star_dual_risk_of I r = (case sol_x r of None \<Rightarrow> Inl TypeError | Some v \<Rightarrow> Inr (take I v))"

section \<open>Cells 6 and 11: validation\<close>

text \<open>
  Cell 6 prints \<^verbatim>\<open>np.max(np.abs(e_star_risk - e_star))\<close>,
  \<^verbatim>\<open>np.sqrt(e_star_risk.T @ cov @ e_star_risk)[0, 0]\<close> and
  \<^verbatim>\<open>(means @ e_star_risk)[0]\<close>. Cell 11 prints the same three numbers for
  \<^verbatim>\<open>e_star_dual_risk\<close> against \<^verbatim>\<open>e_star_risk\<close>, and
  \<^verbatim>\<open>np.sqrt(te_pf_opt.T @ cov @ te_pf_opt)[0, 0]\<close> with
  \<^verbatim>\<open>te_pf_opt = e_star_dual_risk - e_bm\<close>.
\<close>

record validation_report =
  max_abs_exposure_difference :: real
  portfolio_volatility :: real
  tracking_error_volatility :: "real option"
  expected_return :: real

definition validate_risk :: "vec \<Rightarrow> mat \<Rightarrow> vec \<Rightarrow> vec \<Rightarrow> error + validation_report" where
  "validate_risk means cov e_star e_star_risk =
     (case np_sub e_star_risk e_star of Inl e \<Rightarrow> Inl e | Inr d \<Rightarrow>
      (case np_max (map abs d) of Inl e \<Rightarrow> Inl e | Inr m \<Rightarrow>
      (case np_quad cov e_star_risk of Inl e \<Rightarrow> Inl e | Inr q \<Rightarrow>
      (case np_dot means e_star_risk of Inl e \<Rightarrow> Inl e | Inr r \<Rightarrow>
        Inr \<lparr>max_abs_exposure_difference = m, portfolio_volatility = sqrt q,
             tracking_error_volatility = None, expected_return = r\<rparr>))))"

definition validate_dual_risk ::
  "vec \<Rightarrow> mat \<Rightarrow> vec \<Rightarrow> vec \<Rightarrow> vec \<Rightarrow> error + validation_report" where
  "validate_dual_risk means cov bm e_star_risk e_star_dual_risk =
     (case np_sub e_star_dual_risk bm of Inl e \<Rightarrow> Inl e | Inr te_pf_opt \<Rightarrow>
      (case np_sub e_star_dual_risk e_star_risk of Inl e \<Rightarrow> Inl e | Inr d \<Rightarrow>
      (case np_max (map abs d) of Inl e \<Rightarrow> Inl e | Inr m \<Rightarrow>
      (case np_quad cov e_star_dual_risk of Inl e \<Rightarrow> Inl e | Inr q \<Rightarrow>
      (case np_quad cov te_pf_opt of Inl e \<Rightarrow> Inl e | Inr qt \<Rightarrow>
      (case np_dot means e_star_dual_risk of Inl e \<Rightarrow> Inl e | Inr r \<Rightarrow>
        Inr \<lparr>max_abs_exposure_difference = m, portfolio_volatility = sqrt q,
             tracking_error_volatility = Some (sqrt qt), expected_return = r\<rparr>))))))"

text \<open>
  The quantities as the specification words them, over indices: realized volatility
  \<open>\<surd>(w\<^sup>T \<Sigma> w)\<close>, realized return \<open>\<mu>\<^sup>T w\<close>, realized tracking error
  \<open>\<surd>((w - benchmark)\<^sup>T \<Sigma> (w - benchmark))\<close>, and the maximum absolute elementwise
  difference.
\<close>

definition quad_form :: "mat \<Rightarrow> vec \<Rightarrow> real" where
  "quad_form S w = (\<Sum>i<length w. \<Sum>j<length w. w ! i * S ! i ! j * w ! j)"

definition realized_volatility :: "mat \<Rightarrow> vec \<Rightarrow> real" where
  "realized_volatility S w = sqrt (quad_form S w)"

definition realized_return :: "vec \<Rightarrow> vec \<Rightarrow> real" where
  "realized_return mu w = (\<Sum>i<length w. mu ! i * w ! i)"

definition realized_tracking_error :: "mat \<Rightarrow> vec \<Rightarrow> vec \<Rightarrow> real" where
  "realized_tracking_error S bm w =
     realized_volatility S (map (\<lambda>i. w ! i - bm ! i) [0..<length w])"

definition max_abs_difference :: "vec \<Rightarrow> vec \<Rightarrow> real" where
  "max_abs_difference w e = Max ((\<lambda>i. \<bar>w ! i - e ! i\<bar>) ` {..<length w})"

section \<open>The mean-variance base case\<close>

text \<open>
  Modelled from the spec: the QuadraticTargetReturnSolver (\<^verbatim>\<open>ft.MeanVariance\<close> and its
  \<^verbatim>\<open>efficient_portfolio\<close>), whose code is not part of the repository. Its contract
  (section 4.1 of the specification): find \<open>w\<close> minimising \<open>w\<^sup>T \<Sigma> w\<close> subject to
  \<open>G w \<le> h\<close>, the budget equality, and \<open>\<mu>\<^sup>T w = r\<close> or \<open>\<mu>\<^sup>T w \<ge> r\<close>, as the
  caller chooses.
\<close>

datatype return_constraint = ReturnEq | ReturnGe

definition qp_feasible :: "return_constraint \<Rightarrow> vec \<Rightarrow> mat \<Rightarrow> vec \<Rightarrow> real \<Rightarrow> vec \<Rightarrow> bool" where
  "qp_feasible k means G h r w \<longleftrightarrow>
     length w = length means \<and> vec_le (mat_vec G w) h
       \<and> mat_vec (A_budget (length means)) w = b_budget
       \<and> (case k of ReturnEq \<Rightarrow> dot means w = r | ReturnGe \<Rightarrow> r \<le> dot means w)"

definition qp_optimal ::
  "return_constraint \<Rightarrow> vec \<Rightarrow> mat \<Rightarrow> mat \<Rightarrow> vec \<Rightarrow> real \<Rightarrow> vec \<Rightarrow> bool" where
  "qp_optimal k means cov G h r w \<longleftrightarrow>
     qp_feasible k means G h r w
       \<and> (\<forall>v. qp_feasible k means G h r v \<longrightarrow> quad_form cov w \<le> quad_form cov v)"


section \<open>The linear constraints of cells 3 and 5\<close>

definition lin_feasible :: "nat \<Rightarrow> vec \<Rightarrow> bool" where
  \<comment> \<open>\<open>w\<close> meets \<open>G w \<le> h\<close> and \<open>A w = b\<close> for the constraints of cells 3 and 5\<close>
  "lin_feasible I w \<longleftrightarrow>
     length w = I \<and> vec_le (mat_vec (G_bounds I) w) (h_bounds I)
       \<and> mat_vec (A_budget I) w = b_budget"

section \<open>Basic facts\<close>

lemma dot_Nil [simp]: "dot [] ys = 0" "dot xs [] = 0"
  by (simp_all add: dot_def)

lemma dot_Cons [simp]: "dot (x # xs) (y # ys) = x * y + dot xs ys"
  by (simp add: dot_def)

lemma dot_append:
  "length a = length c \<Longrightarrow> dot (a @ b) (c @ d) = dot a c + dot b d"
  by (induction a c rule: list_induct2) simp_all

lemma dot_zeros_left [simp]: "dot (replicate n 0) v = 0"
proof (induction n arbitrary: v)
  case 0
  show ?case by simp
next
  case (Suc n)
  show ?case by (cases v) (simp_all add: Suc.IH)
qed

lemma dot_ones_left: "length v = n \<Longrightarrow> dot (replicate n 1) v = sum_list v"
proof (induction n arbitrary: v)
  case 0
  then show ?case by simp
next
  case (Suc n)
  then show ?case by (cases v) simp_all
qed

lemma dot_sum: "length xs = length ys \<Longrightarrow> dot xs ys = (\<Sum>i<length xs. xs ! i * ys ! i)"
proof (induction xs ys rule: list_induct2)
  case Nil
  show ?case by simp
next
  case (Cons x xs y ys)
  have "(\<Sum>i<Suc (length xs). (x # xs) ! i * (y # ys) ! i)
      = x * y + (\<Sum>i<length xs. xs ! i * ys ! i)"
    by (subst sum.lessThan_Suc_shift) simp
  with Cons show ?case by simp
qed

lemma dot_unit_row:
  "length w = n \<Longrightarrow> i < n \<Longrightarrow> dot (map (\<lambda>j. if i = j then 1 else 0) [0..<n]) w = w ! i"
proof -
  assume len: "length w = n" and i: "i < n"
  have "dot (map (\<lambda>j. if i = j then 1 else 0) [0..<n]) w
      = (\<Sum>j<n. (if i = j then 1 else 0) * w ! j)"
    using len by (simp add: dot_sum)
  also have "\<dots> = (\<Sum>j<n. if j = i then w ! j else 0)"
    by (rule sum.cong) auto
  also have "\<dots> = w ! i"
    using i by simp
  finally show ?thesis .
qed

lemma mat_vec_eye: "length w = n \<Longrightarrow> mat_vec (eye n) w = w"
  by (rule nth_equalityI) (simp_all add: mat_vec_def eye_def dot_unit_row)

section \<open>The linear constraints are feasible from four assets on\<close>

lemma dot_uminus_left: "dot (map uminus r) w = - dot r w"
proof (induction r arbitrary: w)
  case Nil
  show ?case by simp
next
  case (Cons a r)
  show ?case by (cases w) (simp_all add: Cons.IH)
qed

lemma mat_vec_vstack: "mat_vec (vstack M N) w = mat_vec M w @ mat_vec N w"
  by (simp add: mat_vec_def vstack_def)

lemma mat_vec_neg: "mat_vec (mat_neg M) w = map uminus (mat_vec M w)"
  by (simp add: mat_vec_def mat_neg_def dot_uminus_left o_def)

lemma vec_le_append:
  "length xs = length ys \<Longrightarrow> vec_le (xs @ us) (ys @ vs) \<longleftrightarrow> vec_le xs ys \<and> vec_le us vs"
  by (auto simp: vec_le_def list_all2_append dest: list_all2_lengthD)

lemma vec_le_replicate:
  "vec_le xs (replicate n q) \<longleftrightarrow> length xs = n \<and> (\<forall>x\<in>set xs. x \<le> q)"
  by (auto simp: vec_le_def list_all2_conv_all_nth all_set_conv_all_nth)

lemma vec_le_uminus_zero:
  "vec_le (map uminus xs) (replicate n 0) \<longleftrightarrow> length xs = n \<and> (\<forall>x\<in>set xs. 0 \<le> x)"
  by (auto simp: vec_le_replicate)

lemma h_bounds_eq: "h_bounds I = replicate I (1/4) @ replicate I 0"
  by (simp add: h_bounds_def)

lemma budget_iff: "length w = I \<Longrightarrow> mat_vec (A_budget I) w = b_budget \<longleftrightarrow> sum_list w = 1"
  by (simp add: mat_vec_def A_budget_def b_budget_def dot_ones_left)

lemma lin_feasible_iff:
  "lin_feasible I w \<longleftrightarrow>
     length w = I \<and> (\<forall>x\<in>set w. 0 \<le> x \<and> x \<le> 1/4) \<and> sum_list w = 1"
proof (cases "length w = I")
  case False
  then show ?thesis by (simp add: lin_feasible_def)
next
  case True
  have "mat_vec (G_bounds I) w = w @ map uminus w"
    using True by (simp add: G_bounds_def mat_vec_vstack mat_vec_neg mat_vec_eye)
  then show ?thesis
    using True
    by (auto simp: lin_feasible_def h_bounds_eq vec_le_append vec_le_replicate
        vec_le_uminus_zero budget_iff)
qed

lemma sum_list_bounded: "(\<forall>x\<in>set w. x \<le> q) \<Longrightarrow> sum_list w \<le> real (length w) * (q::real)"
  by (induction w) (auto simp: algebra_simps)

lemma e_bm_eq: "e_bm I = replicate I (1 / real I)"
  by (simp add: e_bm_def)

lemma sum_list_e_bm: "0 < I \<Longrightarrow> sum_list (e_bm I) = 1"
  by (simp add: e_bm_eq sum_list_replicate)

lemma e_bm_feasible_iff: "lin_feasible I (e_bm I) \<longleftrightarrow> 4 \<le> I"
proof (cases "I = 0")
  case True
  then show ?thesis by (simp add: lin_feasible_iff e_bm_eq)
next
  case False
  then have "1 / real I \<le> 1 / 4 \<longleftrightarrow> 4 \<le> I"
    by (simp add: field_simps)
  with False show ?thesis
    by (auto simp: lin_feasible_iff e_bm_eq sum_list_replicate)
qed

text \<open>
  Claim C10. The constraints \<open>G w \<le> h\<close> with \<open>G = [Identity; -Identity]\<close> and
  \<open>h = [0.25 ones; zeros]\<close>, together with the budget equality, have a solution if and
  only if there are at least four assets, and the equal-weight benchmark is a solution
  exactly then.
\<close>

theorem feasible_region_nonempty_iff:
  "((\<exists>w. lin_feasible I w) \<longleftrightarrow> 4 \<le> I) \<and> (lin_feasible I (e_bm I) \<longleftrightarrow> 4 \<le> I)"
proof -
  have "4 \<le> I" if "lin_feasible I w" for w
  proof -
    from that have len: "length w = I" and bd: "\<forall>x\<in>set w. x \<le> 1/4" and s: "sum_list w = 1"
      by (auto simp: lin_feasible_iff)
    from sum_list_bounded [OF bd] len s have "1 \<le> real I * (1/4)" by simp
    then show ?thesis by simp
  qed
  moreover have "\<exists>w. lin_feasible I w" if "4 \<le> I"
    using that e_bm_feasible_iff by blast
  ultimately show ?thesis
    using e_bm_feasible_iff by blast
qed

section \<open>Shapes and products of stacked matrices\<close>

lemma is_mat_nth: "is_mat r k M \<Longrightarrow> i < r \<Longrightarrow> length (M ! i) = k"
  by (simp add: is_mat_def list_all_length)

lemma is_mat_length: "is_mat r k M \<Longrightarrow> length M = r"
  by (simp add: is_mat_def)

lemma is_mat_eye: "is_mat n n (eye n)"
  by (simp add: is_mat_def eye_def list_all_length)

lemma is_mat_neg: "is_mat r k (mat_neg M) = is_mat r k M"
  by (simp add: is_mat_def mat_neg_def list_all_length)

lemma vec_sub_nth: "i < length xs \<Longrightarrow> i < length ys \<Longrightarrow> vec_sub xs ys ! i = xs ! i - ys ! i"
  by (simp add: vec_sub_def)

lemma length_vec_sub: "length (vec_sub xs ys) = min (length xs) (length ys)"
  by (simp add: vec_sub_def)

lemma mat_vec_hstack:
  assumes "is_mat r (length w) M" and "length N = r"
  shows "mat_vec (hstack M N) (w @ t) = map2 (+) (mat_vec M w) (mat_vec N t)"
proof (rule nth_equalityI)
  show "length (mat_vec (hstack M N) (w @ t)) = length (map2 (+) (mat_vec M w) (mat_vec N t))"
    using assms by (simp add: mat_vec_def hstack_def is_mat_def)
next
  fix i
  assume "i < length (mat_vec (hstack M N) (w @ t))"
  then have i: "i < r"
    using assms by (simp add: mat_vec_def hstack_def is_mat_def)
  then have "length (M ! i) = length w"
    using assms(1) by (rule is_mat_nth [rotated])
  then have "dot (M ! i @ N ! i) (w @ t) = dot (M ! i) w + dot (N ! i) t"
    by (rule dot_append)
  then show "mat_vec (hstack M N) (w @ t) ! i = map2 (+) (mat_vec M w) (mat_vec N t) ! i"
    using i assms by (simp add: mat_vec_def hstack_def is_mat_def)
qed

lemma map2_plus_uminus: "map2 (+) w (map uminus t) = vec_sub w (t::vec)"
  by (simp add: vec_sub_def zip_map2 split_def)

lemma mat_vec_benchmark_relation:
  "length w = I \<Longrightarrow> length t = I \<Longrightarrow> mat_vec (benchmark_relation I) (w @ t) = vec_sub w t"
  using mat_vec_hstack [of I w "eye I" "mat_neg (eye I)" t] is_mat_eye [of I]
  by (simp add: benchmark_relation_def mat_vec_neg mat_vec_eye map2_plus_uminus
      is_mat_neg is_mat_length)

lemma mat_vec_A_te:
  assumes "length w = I" and "length t = I"
  shows "mat_vec (A_te I) (w @ t) = sum_list w # vec_sub w t"
proof -
  have "dot (replicate I 1 @ replicate I 0) (w @ t) = sum_list w"
    using assms by (simp add: dot_append dot_ones_left)
  then show ?thesis
    using assms by (simp add: A_te_def vstack_def mat_vec_benchmark_relation [symmetric])
      (simp add: mat_vec_def)
qed

lemma vec_sub_eq_iff:
  assumes "length w = n" and "length t = n" and "length bm = n"
  shows "vec_sub w t = bm \<longleftrightarrow> t = vec_sub w bm"
proof
  assume h: "vec_sub w t = bm"
  show "t = vec_sub w bm"
  proof (rule nth_equalityI)
    show "length t = length (vec_sub w bm)"
      using assms by (simp add: length_vec_sub)
  next
    fix i
    assume i: "i < length t"
    then have "vec_sub w t ! i = w ! i - t ! i"
      using assms by (simp add: vec_sub_nth)
    with h i assms show "t ! i = vec_sub w bm ! i"
      by (simp add: vec_sub_nth)
  qed
next
  assume h: "t = vec_sub w bm"
  show "vec_sub w t = bm"
  proof (rule nth_equalityI)
    show "length (vec_sub w t) = length bm"
      using assms by (simp add: length_vec_sub)
  next
    fix i
    assume i: "i < length (vec_sub w t)"
    then have i': "i < n"
      using assms by (simp add: length_vec_sub)
    then have "t ! i = w ! i - bm ! i"
      using assms by (subst h) (simp add: vec_sub_nth)
    with i' assms show "vec_sub w t ! i = bm ! i"
      by (simp add: vec_sub_nth)
  qed
qed

section \<open>The equality block of the tracking-error formulation\<close>

text \<open>
  Claim C4. For every extended vector \<open>x = [w; t]\<close> of length \<open>2 I\<close>, the equality block
  \<open>A x = b\<close> of the tracking-error formulation holds if and only if the entries of \<open>w\<close>
  sum to one and \<open>w - t\<close> is the benchmark, that is, \<open>t = w - benchmark\<close>.
\<close>

theorem equality_block_iff:
  assumes "length x = 2 * I" and "length bm = I"
  shows "(mat_vec (A_te I) x = b_te bm
            \<longleftrightarrow> sum_list (take I x) = 1 \<and> vec_sub (take I x) (drop I x) = bm)
       \<and> (mat_vec (A_te I) x = b_te bm
            \<longleftrightarrow> sum_list (take I x) = 1 \<and> drop I x = vec_sub (take I x) bm)"
proof -
  define w where "w = take I x"
  define t where "t = drop I x"
  have x: "x = w @ t" and w: "length w = I" and t: "length t = I"
    using assms(1) by (simp_all add: w_def t_def)
  have "mat_vec (A_te I) x = b_te bm \<longleftrightarrow> sum_list w = 1 \<and> vec_sub w t = bm"
    by (simp add: x mat_vec_A_te [OF w t] b_te_def)
  moreover have "vec_sub w t = bm \<longleftrightarrow> t = vec_sub w bm"
    using w t assms(2) by (rule vec_sub_eq_iff)
  ultimately show ?thesis
    unfolding w_def t_def by simp
qed

theorem equality_block_iff_witness:
  "length [0.5, 0.3, 0.2, 0.1, 0.2, -0.3 :: real] = 2 * 3 \<and> length [0.4, 0.1, 0.5 :: real] = 3
     \<and> mat_vec (A_te 3) [0.5, 0.3, 0.2, 0.1, 0.2, -0.3] = b_te [0.4, 0.1, 0.5]
     \<and> sum_list (take 3 [0.5, 0.3, 0.2, 0.1, 0.2, -0.3 :: real]) = 1
     \<and> drop 3 [0.5, 0.3, 0.2, 0.1, 0.2, -0.3 :: real]
         = vec_sub (take 3 [0.5, 0.3, 0.2, 0.1, 0.2, -0.3]) [0.4, 0.1, 0.5]"
  using equality_block_iff [of "[0.5, 0.3, 0.2, 0.1, 0.2, -0.3]" 3 "[0.4, 0.1, 0.5]"]
  by (simp add: vec_sub_def)

section \<open>The cone matrices\<close>

lemma map2_replicate_left:
  "length ys = n \<Longrightarrow> map2 f (replicate n z) ys = map (f z) ys"
  by (induction ys arbitrary: n) auto

lemma Gq_base_block_w:
  assumes "is_mat I I L"
  shows "set_block (Gq_base I) 1 0 L = replicate (2 * I) 0 # map (\<lambda>row. row @ replicate I 0) L"
proof -
  have len: "length L = I" and rows: "\<forall>row\<in>set L. length row = I"
    using assms by (simp_all add: is_mat_def list_all_iff)
  have "map2 (\<lambda>row brow. take 0 row @ brow @ drop (0 + length brow) row)
          (replicate I (replicate (2 * I) (0::real))) L
      = map (\<lambda>brow. brow @ drop (length brow) (replicate (2 * I) 0)) L"
    using len by (simp add: map2_replicate_left)
  also have "\<dots> = map (\<lambda>row. row @ replicate I 0) L"
    using rows by (intro map_cong) simp_all
  finally show ?thesis
    by (simp add: set_block_def Gq_base_def zeros_def)
qed

lemma Gq_base_block_t:
  assumes "is_mat I I L"
  shows "set_block (Gq_base I) 1 I L = replicate (2 * I) 0 # map (\<lambda>row. replicate I 0 @ row) L"
proof -
  have len: "length L = I" and rows: "\<forall>row\<in>set L. length row = I"
    using assms by (simp_all add: is_mat_def list_all_iff)
  have "map2 (\<lambda>row brow. take I row @ brow @ drop (I + length brow) row)
          (replicate I (replicate (2 * I) (0::real))) L
      = map (\<lambda>brow. replicate I 0 @ brow @ drop (I + length brow) (replicate (2 * I) 0)) L"
    using len by (simp add: map2_replicate_left min_def)
  also have "\<dots> = map (\<lambda>row. replicate I 0 @ row) L"
    using rows by (intro map_cong) simp_all
  finally show ?thesis
    by (simp add: set_block_def Gq_base_def zeros_def)
qed

lemma zeros_block_risk:
  assumes "is_mat I I L"
  shows "set_block (zeros (I + 1) I) 1 0 L = replicate I 0 # L"
proof -
  have len: "length L = I" and rows: "\<forall>row\<in>set L. length row = I"
    using assms by (simp_all add: is_mat_def list_all_iff)
  have "map2 (\<lambda>row brow. take 0 row @ brow @ drop (0 + length brow) row)
          (replicate I (replicate I (0::real))) L
      = map (\<lambda>brow. brow @ drop (length brow) (replicate I 0)) L"
    using len by (simp add: map2_replicate_left)
  also have "\<dots> = map (\<lambda>row. row) L"
    using rows by (intro map_cong) simp_all
  finally show ?thesis
    by (simp add: set_block_def zeros_def)
qed

lemma mat_vec_pad_right:
  assumes "is_mat r (length w) L"
  shows "mat_vec (map (\<lambda>row. row @ replicate n 0) L) (w @ t) = mat_vec L w"
proof -
  have "dot (row @ replicate n 0) (w @ t) = dot row w" if "row \<in> set L" for row
  proof -
    from that assms have "length row = length w"
      by (simp add: is_mat_def list_all_iff)
    then show ?thesis by (simp add: dot_append)
  qed
  then show ?thesis by (simp add: mat_vec_def)
qed

lemma mat_vec_pad_left:
  assumes "length w = n"
  shows "mat_vec (map (\<lambda>row. replicate n 0 @ row) L) (w @ t) = mat_vec L t"
proof -
  have "dot (replicate n 0 @ row) (w @ t) = dot row t" for row
    using assms by (simp add: dot_append)
  then show ?thesis by (simp add: mat_vec_def)
qed

lemma mat_vec_zero_row_Cons: "mat_vec (replicate n 0 # M) x = 0 # mat_vec M x"
  by (simp add: mat_vec_def)

lemma dot_means2: "length means = length w \<Longrightarrow> dot (means2 I means) (w @ t) = dot means w"
  by (simp add: means2_def dot_append)

section \<open>The blocks of the tracking-error formulation are separate\<close>

text \<open>
  Claim C5. For every extended vector \<open>x = [w; t]\<close>: the extended objective
  \<open>means2\<^sup>T x\<close> is \<open>means\<^sup>T w\<close>; the rows \<open>1..I\<close> of the first cone matrix hold the factor
  \<open>L\<close> in the columns \<open>0..I-1\<close> and zeros in the columns \<open>I..2I-1\<close>, those of the second
  hold zeros in the columns \<open>0..I-1\<close> and the same \<open>L\<close> in the columns \<open>I..2I-1\<close>; so the
  first cone constraint depends on \<open>w\<close> only and the second on \<open>t\<close> only.
\<close>

theorem tracking_error_blocks:
  assumes "is_mat I I L" and "length means = I" and "length w = I" and "length t = I"
  shows "dot (means2 I means) (w @ t) = dot means w
       \<and> (\<exists>M0 M1. Gq2 I L = Inr [M0, M1]
            \<and> (\<forall>i<I. \<forall>j<2 * I. M0 ! (i + 1) ! j = (if j < I then L ! i ! j else 0))
            \<and> (\<forall>i<I. \<forall>j<2 * I. M1 ! (i + 1) ! j = (if j < I then 0 else L ! i ! (j - I)))
            \<and> mat_vec M0 (w @ t) = 0 # mat_vec L w
            \<and> mat_vec M1 (w @ t) = 0 # mat_vec L t
            \<and> (\<forall>hk t'. length t' = I \<longrightarrow> cone_ok M0 hk (w @ t') = cone_ok M0 hk (w @ t))
            \<and> (\<forall>hk w'. length w' = I \<longrightarrow> cone_ok M1 hk (w' @ t) = cone_ok M1 hk (w @ t)))"
proof -
  define M0 where "M0 = replicate (2 * I) 0 # map (\<lambda>row. row @ replicate I (0::real)) L"
  define M1 where "M1 = replicate (2 * I) 0 # map (\<lambda>row. replicate I (0::real) @ row) L"
  have G: "Gq2 I L = Inr [M0, M1]"
    using assms(1) Gq_base_block_w [OF assms(1)] Gq_base_block_t [OF assms(1)]
    by (simp add: Gq2_def M0_def M1_def)
  have len: "length L = I"
    using assms(1) by (rule is_mat_length)
  have row: "length (L ! i) = I" if "i < I" for i
    using assms(1) that by (rule is_mat_nth)
  have e0: "M0 ! (i + 1) ! j = (if j < I then L ! i ! j else 0)" if "i < I" "j < 2 * I" for i j
    using that len row [of i] by (simp add: M0_def nth_append)
  have e1: "M1 ! (i + 1) ! j = (if j < I then 0 else L ! i ! (j - I))" if "i < I" "j < 2 * I" for i j
    using that len row [of i] by (simp add: M1_def nth_append)
  have L': "is_mat I (length w') L" if "length w' = I" for w' :: vec
    using assms(1) that by simp
  have m0: "mat_vec M0 (w' @ t') = 0 # mat_vec L w'" if "length w' = I" for w' t'
    unfolding M0_def mat_vec_zero_row_Cons
    using mat_vec_pad_right [OF L' [OF that]] by simp
  have m1: "mat_vec M1 (w' @ t') = 0 # mat_vec L t'" if "length w' = I" for w' t'
    unfolding M1_def mat_vec_zero_row_Cons
    using mat_vec_pad_left [OF that] by simp
  have c0: "cone_ok M0 hk (w @ t') = cone_ok M0 hk (w @ t)" for hk t'
    by (simp add: cone_ok_def m0 assms(3))
  have c1: "cone_ok M1 hk (w' @ t) = cone_ok M1 hk (w @ t)" if "length w' = I" for hk w'
    by (simp add: cone_ok_def m1 assms(3) that)
  have "\<forall>i<I. \<forall>j<2 * I. M0 ! (i + 1) ! j = (if j < I then L ! i ! j else 0)"
    using e0 by blast
  moreover have "\<forall>i<I. \<forall>j<2 * I. M1 ! (i + 1) ! j = (if j < I then 0 else L ! i ! (j - I))"
    using e1 by blast
  moreover have "\<forall>hk t'. length t' = I \<longrightarrow> cone_ok M0 hk (w @ t') = cone_ok M0 hk (w @ t)"
    using c0 by blast
  moreover have "\<forall>hk w'. length w' = I \<longrightarrow> cone_ok M1 hk (w' @ t) = cone_ok M1 hk (w @ t)"
    using c1 by blast
  moreover have "dot (means2 I means) (w @ t) = dot means w"
    using assms by (simp add: dot_means2)
  moreover note G m0 [OF assms(3), of t] m1 [OF assms(3), of t]
  ultimately show ?thesis
    by blast
qed

theorem tracking_error_blocks_witness:
  "is_mat 2 2 [[-20, 0], [0, -10]] \<and> length [0.08, 0.02 :: real] = 2
     \<and> length [0.5, 0.5 :: real] = 2 \<and> length [0.1, -0.1 :: real] = 2
     \<and> dot (means2 2 [0.08, 0.02]) ([0.5, 0.5] @ [0.1, -0.1]) = dot [0.08, 0.02] [0.5, 0.5]
     \<and> (\<exists>M0 M1. Gq2 2 [[-20, 0], [0, -10]] = Inr [M0, M1]
           \<and> mat_vec M0 ([0.5, 0.5] @ [0.1, -0.1]) = 0 # mat_vec [[-20, 0], [0, -10]] [0.5, 0.5]
           \<and> mat_vec M1 ([0.5, 0.5] @ [0.1, -0.1]) = 0 # mat_vec [[-20, 0], [0, -10]] [0.1, -0.1])"
proof -
  have h: "is_mat 2 2 [[-20, 0], [0, -10]]" "length [0.08, 0.02 :: real] = 2"
    "length [0.5, 0.5 :: real] = 2" "length [0.1, -0.1 :: real] = 2"
    by (simp_all add: is_mat_def)
  from tracking_error_blocks [OF h] h show ?thesis
    by blast
qed

section \<open>Quadratic forms and the factor of the cone\<close>

lemma col_nth: "k < length M \<Longrightarrow> col M j ! k = M ! k ! j"
  by (simp add: col_def)

lemma length_col: "length (col M j) = length M"
  by (simp add: col_def)

lemma vec_mat_nth:
  "length S = length w \<Longrightarrow> j < n \<Longrightarrow> vec_mat n w S ! j = (\<Sum>i<length w. w ! i * S ! i ! j)"
  by (simp add: vec_mat_def dot_sum length_col col_nth)

lemma dot_vec_mat:
  assumes "length S = length w"
  shows "dot (vec_mat (length w) w S) w = quad_form S w"
proof -
  have "dot (vec_mat (length w) w S) w
      = (\<Sum>j<length w. (\<Sum>i<length w. w ! i * S ! i ! j) * w ! j)"
    using assms by (simp add: dot_sum vec_mat_def length_col col_nth)
  also have "\<dots> = (\<Sum>j<length w. \<Sum>i<length w. w ! i * S ! i ! j * w ! j)"
    by (simp add: sum_distrib_right)
  also have "\<dots> = (\<Sum>i<length w. \<Sum>j<length w. w ! i * S ! i ! j * w ! j)"
    by (rule sum.swap)
  finally show ?thesis
    by (simp add: quad_form_def)
qed

lemma np_quad_eq: "is_mat (length w) (length w) S \<Longrightarrow> np_quad S w = Inr (quad_form S w)"
  by (simp add: np_quad_def dot_vec_mat is_mat_length)

lemma mat_vec_nth:
  "is_mat r (length w) M \<Longrightarrow> k < r \<Longrightarrow> mat_vec M w ! k = (\<Sum>j<length w. M ! k ! j * w ! j)"
  by (simp add: mat_vec_def is_mat_length is_mat_nth dot_sum)

lemma length_mat_vec: "length (mat_vec M w) = length M"
  by (simp add: mat_vec_def)

lemma gram_nth:
  assumes "is_mat r n M" and "i < n" and "j < n"
  shows "mat_mul n (mat_T n M) M ! i ! j = (\<Sum>k<r. M ! k ! i * M ! k ! j)"
  using assms by (simp add: mat_mul_def mat_T_def vec_mat_def dot_sum length_col col_nth
      is_mat_length)

lemma length_gram: "length (mat_mul n (mat_T n M) M) = n"
  by (simp add: mat_mul_def mat_T_def)

lemma is_mat_gram: "is_mat n n (mat_mul n (mat_T n M) M)"
  by (simp add: is_mat_def mat_mul_def mat_T_def vec_mat_def list_all_length)

lemma quad_form_gram:
  assumes "is_mat r n M" and "length w = n"
  shows "quad_form (mat_mul n (mat_T n M) M) w = dot (mat_vec M w) (mat_vec M w)"
proof -
  have "quad_form (mat_mul n (mat_T n M) M) w
      = (\<Sum>i<n. \<Sum>j<n. w ! i * (\<Sum>k<r. M ! k ! i * M ! k ! j) * w ! j)"
    using assms by (simp add: quad_form_def gram_nth)
  also have "\<dots> = (\<Sum>i<n. \<Sum>j<n. \<Sum>k<r. (M ! k ! i * w ! i) * (M ! k ! j * w ! j))"
    by (simp add: sum_distrib_left sum_distrib_right mult_ac)
  also have "\<dots> = (\<Sum>i<n. \<Sum>k<r. \<Sum>j<n. (M ! k ! i * w ! i) * (M ! k ! j * w ! j))"
    by (intro sum.cong refl sum.swap)
  also have "\<dots> = (\<Sum>k<r. \<Sum>i<n. \<Sum>j<n. (M ! k ! i * w ! i) * (M ! k ! j * w ! j))"
    by (rule sum.swap)
  also have "\<dots> = (\<Sum>k<r. (\<Sum>i<n. M ! k ! i * w ! i) * (\<Sum>j<n. M ! k ! j * w ! j))"
    by (simp add: sum_product)
  also have "\<dots> = (\<Sum>k<r. mat_vec M w ! k * mat_vec M w ! k)"
    using assms by (simp add: mat_vec_nth)
  also have "\<dots> = dot (mat_vec M w) (mat_vec M w)"
    using assms by (simp add: dot_sum length_mat_vec is_mat_length)
  finally show ?thesis .
qed

lemma mat_scale_nth:
  "is_mat r n S \<Longrightarrow> i < r \<Longrightarrow> j < n \<Longrightarrow> mat_scale a S ! i ! j = a * S ! i ! j"
  by (simp add: mat_scale_def is_mat_length is_mat_nth)

lemma quad_form_scale:
  assumes "is_mat n n S" and "length w = n"
  shows "quad_form (mat_scale a S) w = a * quad_form S w"
proof -
  have "quad_form (mat_scale a S) w = (\<Sum>i<n. \<Sum>j<n. w ! i * (a * S ! i ! j) * w ! j)"
    using assms by (simp add: quad_form_def mat_scale_nth)
  also have "\<dots> = (\<Sum>i<n. \<Sum>j<n. a * (w ! i * S ! i ! j * w ! j))"
    by (simp add: mult_ac)
  also have "\<dots> = a * quad_form S w"
    using assms by (simp add: quad_form_def sum_distrib_left)
  finally show ?thesis .
qed

lemma dot_uminus_uminus: "dot (map uminus xs) (map uminus ys) = dot xs ys"
proof (induction xs arbitrary: ys)
  case Nil
  show ?case by simp
next
  case (Cons a xs)
  show ?case by (cases ys) (simp_all add: Cons.IH)
qed

lemma norm2_uminus: "norm2 (map uminus v) = norm2 v"
  by (simp add: norm2_def dot_uminus_uminus)

lemma col_neg: "\<forall>row\<in>set M. j < length row \<Longrightarrow> col (mat_neg M) j = map uminus (col M j)"
  by (simp add: col_def mat_neg_def)

lemma gram_neg:
  assumes "is_mat r n M"
  shows "mat_mul n (mat_T n (mat_neg M)) (mat_neg M) = mat_mul n (mat_T n M) M"
proof -
  have c: "col (mat_neg M) j = map uminus (col M j)" if "j < n" for j
    using assms that by (intro col_neg) (simp add: is_mat_def list_all_iff)
  have "dot (col (mat_neg M) i) (col (mat_neg M) j) = dot (col M i) (col M j)"
    if "i < n" "j < n" for i j
    using that by (simp add: c dot_uminus_uminus)
  then show ?thesis
    by (simp add: mat_mul_def mat_T_def vec_mat_def)
qed

lemma norm2_factor:
  assumes U: "is_mat n n U" and UU: "mat_mul n (mat_T n U) U = mat_scale (s\<^sup>2) S"
    and S: "is_mat n n S" and w: "length w = n" and s: "0 < s"
  shows "norm2 (mat_vec (mat_neg U) w) = s * sqrt (quad_form S w)"
proof -
  have "dot (mat_vec U w) (mat_vec U w) = quad_form (mat_scale (s\<^sup>2) S) w"
    using quad_form_gram [OF U w] UU by simp
  also have "\<dots> = s\<^sup>2 * quad_form S w"
    using S w by (rule quad_form_scale)
  finally have "norm2 (mat_vec U w) = sqrt (s\<^sup>2 * quad_form S w)"
    by (simp add: norm2_def)
  also have "\<dots> = s * sqrt (quad_form S w)"
    using s by (simp add: real_sqrt_mult)
  finally show ?thesis
    by (simp add: mat_vec_neg norm2_uminus)
qed

lemma hq_cone_eq: "hq_cone I target = (target * scalar) # replicate I 0"
  by (simp add: hq_cone_def)

lemma vec_sub_zeros_left: "length v = n \<Longrightarrow> vec_sub (replicate n 0) v = map uminus v"
  by (rule nth_equalityI) (simp_all add: vec_sub_def)

lemma cone_ok_risk:
  assumes "is_mat I I L" and "length w = I"
  shows "cone_ok (replicate I 0 # L) (hq_cone I target) w
           \<longleftrightarrow> norm2 (mat_vec L w) \<le> target * scalar"
proof -
  have "length (mat_vec L w) = I"
    using assms by (simp add: length_mat_vec is_mat_length)
  then have "vec_sub (hq_cone I target) (mat_vec (replicate I 0 # L) w)
      = (target * scalar) # map uminus (mat_vec L w)"
    by (simp add: hq_cone_eq mat_vec_zero_row_Cons vec_sub_zeros_left [symmetric])
      (simp add: vec_sub_def)
  then show ?thesis
    by (simp add: cone_ok_def in_soc_def norm2_uminus)
qed

lemma scalar_pos: "0 < scalar"
  by (simp add: scalar_def)

section \<open>The scaled cone constraint is the volatility bound\<close>

text \<open>
  Claim C3. With \<open>scalar = 100\<close> and a covariance matrix \<open>\<Sigma>\<close> that the Cholesky
  factorisation accepts (returning \<open>U\<close> with \<open>U\<^sup>T U = scalar\<^sup>2 \<Sigma>\<close>, which it does for the
  symmetric positive-definite matrices), the factor \<open>L = -U\<close> placed in the rows \<open>1..I\<close>
  of the cone matrix satisfies \<open>L\<^sup>T L = scalar\<^sup>2 \<Sigma>\<close>, and for every weight vector \<open>w\<close>
  and every risk target \<open>\<rho>\<close> the scaled cone constraint \<open>\<parallel>L w\<parallel> \<le> \<rho> scalar\<close> holds if and
  only if \<open>\<surd>(w\<^sup>T \<Sigma> w) \<le> \<rho>\<close>.
\<close>

theorem scaled_cone_iff_volatility_bound:
  assumes "cholesky (mat_scale (scalar\<^sup>2) cov) = Inr U"
    and "is_mat I I U"
    and "mat_mul I (mat_T I U) U = mat_scale (scalar\<^sup>2) cov"
    and "is_mat I I cov"
    and "length w = I"
  shows "\<exists>L Gk. L_factor cholesky cov = Inr L \<and> Gq_risk I L = Inr [Gk]
           \<and> Gk = replicate I 0 # L
           \<and> scalar = 100
           \<and> mat_mul I (mat_T I L) L = mat_scale (scalar\<^sup>2) cov
           \<and> (norm2 (mat_vec L w) \<le> rho * scalar \<longleftrightarrow> realized_volatility cov w \<le> rho)
           \<and> (cone_ok Gk (hq_cone I rho) w \<longleftrightarrow> realized_volatility cov w \<le> rho)"
proof -
  define L where "L = mat_neg U"
  have L: "is_mat I I L"
    using assms(2) by (simp add: L_def is_mat_neg)
  have f: "L_factor cholesky cov = Inr L"
    using assms(1) by (simp add: L_factor_def L_def)
  have g: "Gq_risk I L = Inr [replicate I 0 # L]"
    using L zeros_block_risk [OF L] by (simp add: Gq_risk_def)
  have t: "mat_mul I (mat_T I L) L = mat_scale (scalar\<^sup>2) cov"
    using gram_neg [OF assms(2)] assms(3) by (simp add: L_def)
  have "norm2 (mat_vec L w) = scalar * realized_volatility cov w"
    unfolding L_def realized_volatility_def
    using assms(2) assms(3) assms(4) assms(5) scalar_pos by (rule norm2_factor)
  then have n: "norm2 (mat_vec L w) \<le> rho * scalar \<longleftrightarrow> realized_volatility cov w \<le> rho"
    using scalar_pos by (simp add: mult.commute)
  have "cone_ok (replicate I 0 # L) (hq_cone I rho) w \<longleftrightarrow> realized_volatility cov w \<le> rho"
    using cone_ok_risk [OF L assms(5)] n by simp
  with f g t n show ?thesis
    by (simp add: scalar_def)
qed

theorem scaled_cone_iff_volatility_bound_witness:
  "(\<lambda>M. Inr [[20, 0], [0, 10]]) (mat_scale (scalar\<^sup>2) [[0.04, 0], [0, 0.01]])
       = (Inr [[20, 0], [0, 10]] :: error + mat)
     \<and> is_mat 2 2 [[20, 0], [0, 10]]
     \<and> mat_mul 2 (mat_T 2 [[20, 0], [0, 10]]) [[20, 0], [0, 10]]
         = mat_scale (scalar\<^sup>2) [[0.04, 0], [0, 0.01]]
     \<and> is_mat 2 2 [[0.04, 0], [0, 0.01]] \<and> length [0.5, 0.5 :: real] = 2
     \<and> L_factor (\<lambda>M. Inr [[20, 0], [0, 10]]) [[0.04, 0], [0, 0.01]] = Inr [[-20, 0], [0, -10]]
     \<and> Gq_risk 2 [[-20, 0], [0, -10]] = Inr [[[0, 0], [-20, 0], [0, -10]]]
     \<and> cone_ok [[0, 0], [-20, 0], [0, -10]] (hq_cone 2 0.2) [0.5, 0.5]
     \<and> realized_volatility [[0.04, 0], [0, 0.01]] [0.5, 0.5] \<le> 0.2"
proof -
  have h: "(\<lambda>M. Inr [[20, 0], [0, 10]]) (mat_scale (scalar\<^sup>2) [[0.04, 0], [0, 0.01]])
       = (Inr [[20, 0], [0, 10]] :: error + mat)"
    "is_mat 2 2 [[20, 0], [0, 10]]"
    "mat_mul 2 (mat_T 2 [[20, 0], [0, 10]]) [[20, 0], [0, 10]]
         = mat_scale (scalar\<^sup>2) [[0.04, 0], [0, 0.01]]"
    "is_mat 2 2 [[0.04, 0], [0, 0.01]]" "length [0.5, 0.5 :: real] = 2"
    by (simp_all add: is_mat_def mat_mul_def mat_T_def vec_mat_def col_def mat_scale_def
        scalar_def numeral_2_eq_2)
  have q: "realized_volatility [[0.04, 0], [0, 0.01]] [0.5, 0.5] \<le> 0.2"
  proof -
    have e: "quad_form [[0.04, 0], [0, 0.01]] [0.5, 0.5] = 1 / 80"
      by (simp add: quad_form_def lessThan_Suc numeral_2_eq_2)
    have "sqrt (1 / 80) \<le> sqrt ((1 / 5)\<^sup>2)"
      by (subst real_sqrt_le_iff) (simp add: power2_eq_square)
    then have "sqrt (1 / 80) \<le> 1 / 5"
      by simp
    then show ?thesis
      unfolding realized_volatility_def e by simp
  qed
  from scaled_cone_iff_volatility_bound [OF h, of "0.2"] obtain L Gk where
    1: "L_factor (\<lambda>M. Inr [[20, 0], [0, 10]]) [[0.04, 0], [0, 0.01]] = Inr L"
    and 2: "Gq_risk 2 L = Inr [Gk]"
    and 3: "Gk = replicate 2 0 # L"
    and 4: "cone_ok Gk (hq_cone 2 0.2) [0.5, 0.5]
              \<longleftrightarrow> realized_volatility [[0.04, 0], [0, 0.01]] [0.5, 0.5] \<le> 0.2"
    by blast
  have L: "L = [[-20, 0], [0, -10]]"
    using 1 by (simp add: L_factor_def mat_neg_def)
  have Gk: "Gk = [[0, 0], [-20, 0], [0, -10]]"
    using 3 by (simp add: L numeral_2_eq_2)
  from 1 2 4 q have "L_factor (\<lambda>M. Inr [[20, 0], [0, 10]]) [[0.04, 0], [0, 0.01]]
        = Inr [[-20, 0], [0, -10]]
      \<and> Gq_risk 2 [[-20, 0], [0, -10]] = Inr [[[0, 0], [-20, 0], [0, -10]]]
      \<and> cone_ok [[0, 0], [-20, 0], [0, -10]] (hq_cone 2 0.2) [0.5, 0.5]"
    unfolding L Gk by blast
  with h q show ?thesis
    by blast
qed

section \<open>The validation cells\<close>

lemma vec_sub_conv_map:
  "length w = n \<Longrightarrow> length e = n \<Longrightarrow> vec_sub w e = map (\<lambda>i. w ! i - e ! i) [0..<n]"
  by (rule nth_equalityI) (simp_all add: vec_sub_def)

lemma np_sub_same_length: "length w = length e \<Longrightarrow> np_sub w e = Inr (vec_sub w e)"
  by (simp add: np_sub_def)

lemma np_max_eq:
  assumes "v \<noteq> []"
  shows "np_max v = Inr (Max (set v))"
proof (cases v)
  case Nil
  with assms show ?thesis by simp
next
  case (Cons x xs)
  then show ?thesis
    using Max.set_eq_fold [of x xs] by (simp add: np_max_def)
qed

lemma np_max_abs_diff:
  assumes "length w = n" and "length e = n" and "0 < n"
  shows "np_max (map abs (vec_sub w e)) = Inr (max_abs_difference w e)"
proof -
  have "map abs (vec_sub w e) = map (\<lambda>i. \<bar>w ! i - e ! i\<bar>) [0..<n]"
    using assms by (simp add: vec_sub_conv_map)
  moreover have "set (map (\<lambda>i. \<bar>w ! i - e ! i\<bar>) [0..<n]) = (\<lambda>i. \<bar>w ! i - e ! i\<bar>) ` {..<n}"
    by (simp add: atLeast0LessThan)
  moreover have "map (\<lambda>i. \<bar>w ! i - e ! i\<bar>) [0..<n] \<noteq> []"
    using assms by simp
  ultimately show ?thesis
    using assms by (simp add: np_max_eq max_abs_difference_def)
qed

lemma np_dot_eq: "length m = length w \<Longrightarrow> np_dot m w = Inr (realized_return m w)"
  by (simp add: np_dot_def realized_return_def dot_sum)

lemma tracking_error_eq:
  "length w = n \<Longrightarrow> length bm = n
     \<Longrightarrow> sqrt (quad_form S (vec_sub w bm)) = realized_tracking_error S bm w"
  by (simp add: realized_tracking_error_def realized_volatility_def vec_sub_conv_map)

section \<open>The validation reports the realized quantities\<close>

text \<open>
  Claim C9. For every weight vector, the validation cells compute the realized volatility
  \<open>\<surd>(w\<^sup>T \<Sigma> w)\<close>, the realized return \<open>means\<^sup>T w\<close>, the realized tracking error
  \<open>\<surd>((w - benchmark)\<^sup>T \<Sigma> (w - benchmark))\<close> and the maximum absolute elementwise
  difference against the reference portfolio, from the means, the covariance and the
  weights alone; they return these numbers whatever the size of the discrepancy, and
  raise nothing on arrays of matching shapes with at least one asset.
\<close>

theorem validation_reports_realized_quantities:
  assumes "is_mat I I cov" and "length means = I" and "0 < I"
    and "length e_star = I" and "length e_star_risk = I"
    and "length e_star_dual_risk = I" and "length bm = I"
  shows "validate_risk means cov e_star e_star_risk =
           Inr \<lparr>max_abs_exposure_difference = max_abs_difference e_star_risk e_star,
                portfolio_volatility = realized_volatility cov e_star_risk,
                tracking_error_volatility = None,
                expected_return = realized_return means e_star_risk\<rparr>
       \<and> validate_dual_risk means cov bm e_star_risk e_star_dual_risk =
           Inr \<lparr>max_abs_exposure_difference = max_abs_difference e_star_dual_risk e_star_risk,
                portfolio_volatility = realized_volatility cov e_star_dual_risk,
                tracking_error_volatility =
                  Some (realized_tracking_error cov bm e_star_dual_risk),
                expected_return = realized_return means e_star_dual_risk\<rparr>"
proof -
  have q: "np_quad cov v = Inr (quad_form cov v)" if "length v = I" for v
    using assms(1) that by (simp add: np_quad_eq)
  have s: "np_sub v u = Inr (vec_sub v u)" if "length v = I" "length u = I" for v u
    using that by (simp add: np_sub_same_length)
  have l: "length (vec_sub v u) = I" if "length v = I" "length u = I" for v u
    using that by (simp add: length_vec_sub)
  have m: "np_max (map abs (vec_sub v u)) = Inr (max_abs_difference v u)"
    if "length v = I" "length u = I" for v u
    using that assms(3) by (rule np_max_abs_diff)
  have d: "np_dot means v = Inr (realized_return means v)" if "length v = I" for v
    using assms(2) that by (simp add: np_dot_eq)
  have t: "sqrt (quad_form cov (vec_sub e_star_dual_risk bm))
      = realized_tracking_error cov bm e_star_dual_risk"
    using assms(6) assms(7) by (rule tracking_error_eq)
  have "validate_risk means cov e_star e_star_risk =
           Inr \<lparr>max_abs_exposure_difference = max_abs_difference e_star_risk e_star,
                portfolio_volatility = realized_volatility cov e_star_risk,
                tracking_error_volatility = None,
                expected_return = realized_return means e_star_risk\<rparr>"
    using assms by (simp add: validate_risk_def s m q d realized_volatility_def)
  moreover have "validate_dual_risk means cov bm e_star_risk e_star_dual_risk =
           Inr \<lparr>max_abs_exposure_difference = max_abs_difference e_star_dual_risk e_star_risk,
                portfolio_volatility = realized_volatility cov e_star_dual_risk,
                tracking_error_volatility =
                  Some (realized_tracking_error cov bm e_star_dual_risk),
                expected_return = realized_return means e_star_dual_risk\<rparr>"
    using assms by (simp add: validate_dual_risk_def s m q d l t realized_volatility_def)
  ultimately show ?thesis
    by simp
qed

theorem validation_reports_realized_quantities_witness:
  "is_mat 2 2 [[0.04, 0], [0, 0.01]] \<and> length [0.08, 0.02 :: real] = 2 \<and> (0::nat) < 2
     \<and> validate_dual_risk [0.08, 0.02] [[0.04, 0], [0, 0.01]] [0.5, 0.5] [0.5, 0.5] [1, 0] =
         Inr \<lparr>max_abs_exposure_difference = 0.5, portfolio_volatility = 0.2,
              tracking_error_volatility = Some (sqrt 0.0125), expected_return = 0.08\<rparr>"
proof -
  have h: "is_mat 2 2 [[0.04, 0], [0, 0.01]]" "length [0.08, 0.02 :: real] = 2" "(0::nat) < 2"
    "length [0.3, 0.7 :: real] = 2" "length [0.5, 0.5 :: real] = 2"
    "length [1, 0 :: real] = 2" "length [0.5, 0.5 :: real] = 2"
    by (simp_all add: is_mat_def)
  have m: "max_abs_difference [1, 0] [0.5, 0.5] = 0.5"
    by (simp add: max_abs_difference_def lessThan_Suc numeral_2_eq_2)
  have v: "realized_volatility [[0.04, 0], [0, 0.01]] [1, 0] = 0.2"
  proof -
    have "quad_form [[0.04, 0], [0, 0.01]] [1, 0] = (0.2)\<^sup>2"
      by (simp add: quad_form_def lessThan_Suc numeral_2_eq_2 power2_eq_square)
    then show ?thesis
      unfolding realized_volatility_def by (simp only: real_sqrt_abs)
  qed
  have t: "realized_tracking_error [[0.04, 0], [0, 0.01]] [0.5, 0.5] [1, 0] = sqrt 0.0125"
    by (simp add: realized_tracking_error_def realized_volatility_def quad_form_def
        lessThan_Suc numeral_2_eq_2)
  have r: "realized_return [0.08, 0.02] [1, 0] = 0.08"
    by (simp add: realized_return_def lessThan_Suc numeral_2_eq_2)
  from validation_reports_realized_quantities [OF h] h show ?thesis
    unfolding m v t r by blast
qed

section \<open>What the target-risk program asks of a portfolio\<close>

lemma dot_map_times_left: "dot (map (\<lambda>m. m * s) ms) x = s * dot ms x"
proof (induction ms arbitrary: x)
  case Nil
  show ?case by simp
next
  case (Cons a ms)
  show ?case by (cases x) (simp_all add: Cons.IH algebra_simps)
qed

lemma dot_objective: "dot (map (\<lambda>m. - m * s) ms) x = - s * dot ms x"
proof -
  have "dot (map (\<lambda>m. - m * s) ms) x = dot (map (\<lambda>m. m * s) (map uminus ms)) x"
    by (simp add: o_def)
  also have "\<dots> = s * dot (map uminus ms) x"
    by (rule dot_map_times_left)
  also have "\<dots> = - s * dot ms x"
    by (simp add: dot_uminus_left)
  finally show ?thesis .
qed

lemma cone_ok_risk_volatility:
  assumes "is_mat I I U" and "mat_mul I (mat_T I U) U = mat_scale (scalar\<^sup>2) cov"
    and "is_mat I I cov" and "length x = I"
  shows "cone_ok (replicate I 0 # mat_neg U) (hq_cone I rho) x
           \<longleftrightarrow> realized_volatility cov x \<le> rho"
proof -
  have "norm2 (mat_vec (mat_neg U) x) = scalar * realized_volatility cov x"
    unfolding realized_volatility_def
    using assms scalar_pos by (rule norm2_factor)
  moreover have "is_mat I I (mat_neg U)"
    using assms(1) by (simp add: is_mat_neg)
  ultimately show ?thesis
    using cone_ok_risk [of I "mat_neg U" x rho] assms(4) scalar_pos
    by (simp add: mult.commute)
qed

lemma risk_program_eq:
  assumes "cholesky (mat_scale (scalar\<^sup>2) cov) = Inr U" and "is_mat I I U"
  shows "risk_program cholesky I means cov G h rho =
           Inr \<lparr>cp_c = map (\<lambda>m. - m * scalar) means, cp_Gl = G, cp_hl = h,
                cp_Gq = [replicate I 0 # mat_neg U], cp_hq = [hq_cone I rho],
                cp_A = A_budget I, cp_b = b_budget\<rparr>"
proof -
  have "is_mat I I (mat_neg U)"
    using assms(2) by (simp add: is_mat_neg)
  then have "Gq_risk I (mat_neg U) = Inr [replicate I 0 # mat_neg U]"
    using zeros_block_risk [of I "mat_neg U"] by (simp add: Gq_risk_def)
  then show ?thesis
    using assms(1) by (simp add: risk_program_def L_factor_def)
qed

lemma risk_program_feasible:
  assumes "risk_program cholesky I means cov G h rho = Inr P"
    and "cholesky (mat_scale (scalar\<^sup>2) cov) = Inr U" and "is_mat I I U"
    and "mat_mul I (mat_T I U) U = mat_scale (scalar\<^sup>2) cov"
    and "is_mat I I cov" and "length means = I"
  shows "socp_feasible P x \<longleftrightarrow>
           length x = I \<and> vec_le (mat_vec G x) h \<and> realized_volatility cov x \<le> rho
             \<and> sum_list x = 1"
proof (cases "length x = I")
  case True
  have P: "P = \<lparr>cp_c = map (\<lambda>m. - m * scalar) means, cp_Gl = G, cp_hl = h,
                cp_Gq = [replicate I 0 # mat_neg U], cp_hq = [hq_cone I rho],
                cp_A = A_budget I, cp_b = b_budget\<rparr>"
    using risk_program_eq [where cholesky = cholesky and cov = cov and U = U and I = I,
        OF assms(2) assms(3), of means G h rho] assms(1) by simp
  show ?thesis
    using True assms(6)
    by (simp add: socp_feasible_def P budget_iff
        cone_ok_risk_volatility [OF assms(3) assms(4) assms(5) True])
next
  case False
  have P: "cp_c P = map (\<lambda>m. - m * scalar) means"
    using risk_program_eq [where cholesky = cholesky and cov = cov and U = U and I = I,
        OF assms(2) assms(3), of means G h rho] assms(1) by auto
  show ?thesis
    using False assms(6) by (simp add: socp_feasible_def P)
qed

lemma risk_program_objective:
  assumes "risk_program cholesky I means cov G h rho = Inr P"
  shows "dot (cp_c P) x = - scalar * dot means x"
proof -
  have "cp_c P = map (\<lambda>m. - m * scalar) means"
    using assms by (auto simp: risk_program_def split: sum.splits)
  then have "dot (cp_c P) x = dot (map (\<lambda>m. - m * scalar) means) x"
    by (simp only:)
  also have "\<dots> = - scalar * dot means x"
    by (rule dot_objective)
  finally show ?thesis .
qed

lemma risk_program_optimal:
  assumes "risk_program cholesky I means cov G h rho = Inr P"
  shows "socp_optimal P x \<longleftrightarrow>
           socp_feasible P x \<and> (\<forall>y. socp_feasible P y \<longrightarrow> dot means y \<le> dot means x)"
  using scalar_pos by (simp add: socp_optimal_def risk_program_objective [OF assms])

section \<open>The two-asset scenario\<close>

lemma length_2_conv: "length x = 2 \<longleftrightarrow> (\<exists>a b. x = [a, b])"
  by (auto simp: numeral_2_eq_2 length_Suc_conv)

lemma long_only_2:
  "vec_le (mat_vec (mat_neg (eye 2)) [a, b]) [0, 0] \<longleftrightarrow> 0 \<le> a \<and> 0 \<le> b"
proof -
  have "mat_vec (mat_neg (eye 2)) [a, b] = map uminus [a, b]"
    by (simp add: mat_vec_neg mat_vec_eye)
  moreover have "[0, 0] = replicate 2 (0::real)"
    by (simp add: numeral_2_eq_2)
  ultimately show ?thesis
    by (simp only: vec_le_uminus_zero) auto
qed

lemma quad_form_2:
  "quad_form [[0.04, 0], [0, 0.01]] [a, b] = a\<^sup>2 / 25 + b\<^sup>2 / 100"
  by (simp add: quad_form_def lessThan_Suc numeral_2_eq_2 power2_eq_square)

lemma variance_factor:
  "a\<^sup>2 / 25 + (1 - a)\<^sup>2 / 100 - 1 / 80 = (a - 1 / 2) * (a + 1 / 10) / (20::real)"
  by (simp add: power2_eq_square field_simps)

lemma variance_bound_iff:
  assumes "0 \<le> (a::real)"
  shows "a\<^sup>2 / 25 + (1 - a)\<^sup>2 / 100 \<le> 1 / 80 \<longleftrightarrow> a \<le> 1 / 2"
proof -
  have "a\<^sup>2 / 25 + (1 - a)\<^sup>2 / 100 \<le> 1 / 80 \<longleftrightarrow> (a - 1 / 2) * (a + 1 / 10) \<le> 0"
    using variance_factor [of a] by linarith
  also have "\<dots> \<longleftrightarrow> a \<le> 1 / 2"
    using assms by (auto simp: mult_le_0_iff)
  finally show ?thesis .
qed

lemma volatility_2:
  "realized_volatility [[0.04, 0], [0, 0.01]] [a, b] \<le> sqrt 0.0125
     \<longleftrightarrow> a\<^sup>2 / 25 + b\<^sup>2 / 100 \<le> 1 / 80"
proof -
  have "realized_volatility [[0.04, 0], [0, 0.01]] [a, b] \<le> sqrt 0.0125
      \<longleftrightarrow> quad_form [[0.04, 0], [0, 0.01]] [a, b] \<le> 0.0125"
    by (simp only: realized_volatility_def real_sqrt_le_iff)
  also have "\<dots> \<longleftrightarrow> a\<^sup>2 / 25 + b\<^sup>2 / 100 \<le> 1 / 80"
    by (simp only: quad_form_2) simp
  finally show ?thesis .
qed

lemma two_asset_socp_feasible:
  assumes "risk_program cholesky 2 [0.08, 0.02] [[0.04, 0], [0, 0.01]] (mat_neg (eye 2)) [0, 0]
             (sqrt 0.0125) = Inr P"
    and "cholesky (mat_scale (scalar\<^sup>2) [[0.04, 0], [0, 0.01]]) = Inr U"
    and "is_mat 2 2 U"
    and "mat_mul 2 (mat_T 2 U) U = mat_scale (scalar\<^sup>2) [[0.04, 0], [0, 0.01]]"
  shows "socp_feasible P x \<longleftrightarrow> (\<exists>a. x = [a, 1 - a] \<and> 0 \<le> a \<and> a \<le> 1 / 2)"
proof -
  have cov: "is_mat 2 2 [[0.04, 0], [0, 0.01]]" and m: "length [0.08, 0.02 :: real] = 2"
    by (simp_all add: is_mat_def)
  note f = risk_program_feasible [OF assms(1) assms(2) assms(3) assms(4) cov m]
  show ?thesis
  proof
    assume "socp_feasible P x"
    then have len: "length x = 2"
      and lo: "vec_le (mat_vec (mat_neg (eye 2)) x) [0, 0]"
      and vol: "realized_volatility [[0.04, 0], [0, 0.01]] x \<le> sqrt 0.0125"
      and bud: "sum_list x = 1"
      by (simp_all add: f)
    from len obtain a b where x: "x = [a, b]"
      by (auto simp: length_2_conv)
    from bud have b: "b = 1 - a"
      by (simp add: x)
    from lo have a0: "0 \<le> a"
      by (simp add: x long_only_2)
    from vol have "a\<^sup>2 / 25 + (1 - a)\<^sup>2 / 100 \<le> 1 / 80"
      unfolding x b by (simp only: volatility_2)
    then have "a \<le> 1 / 2"
      using a0 by (simp only: variance_bound_iff)
    with x b a0 show "\<exists>a. x = [a, 1 - a] \<and> 0 \<le> a \<and> a \<le> 1 / 2"
      by blast
  next
    assume "\<exists>a. x = [a, 1 - a] \<and> 0 \<le> a \<and> a \<le> 1 / 2"
    then obtain a where x: "x = [a, 1 - a]" and a0: "0 \<le> a" and a1: "a \<le> 1 / 2"
      by blast
    have "a\<^sup>2 / 25 + (1 - a)\<^sup>2 / 100 \<le> 1 / 80"
      using a0 a1 by (simp only: variance_bound_iff)
    then have "realized_volatility [[0.04, 0], [0, 0.01]] [a, 1 - a] \<le> sqrt 0.0125"
      by (simp only: volatility_2)
    moreover have "vec_le (mat_vec (mat_neg (eye 2)) [a, 1 - a]) [0, 0]"
      using a0 a1 by (simp only: long_only_2) simp
    moreover have "sum_list [a, 1 - a] = 1"
      by simp
    ultimately show "socp_feasible P x"
      unfolding f x by simp
  qed
qed

lemma two_asset_return: "dot [0.08, 0.02] [a, 1 - a] = (3 * a + 1) / 50"
  by (simp add: field_simps)

lemma two_asset_return_half: "dot [0.08, 0.02] [0.5, 0.5] = 1 / 20"
  by simp

lemma two_asset_socp_optimal:
  assumes "risk_program cholesky 2 [0.08, 0.02] [[0.04, 0], [0, 0.01]] (mat_neg (eye 2)) [0, 0]
             (sqrt 0.0125) = Inr P"
    and "cholesky (mat_scale (scalar\<^sup>2) [[0.04, 0], [0, 0.01]]) = Inr U"
    and "is_mat 2 2 U"
    and "mat_mul 2 (mat_T 2 U) U = mat_scale (scalar\<^sup>2) [[0.04, 0], [0, 0.01]]"
  shows "socp_optimal P x \<longleftrightarrow> x = [0.5, 0.5]"
proof -
  note f = two_asset_socp_feasible [OF assms]
  note opt = risk_program_optimal [OF assms(1)]
  have half: "socp_feasible P [0.5, 0.5]"
    unfolding f by (intro exI [of _ "1 / 2"]) simp
  show ?thesis
  proof
    assume o: "socp_optimal P x"
    then obtain a where x: "x = [a, 1 - a]" and a0: "0 \<le> a" and a1: "a \<le> 1 / 2"
      unfolding opt f by blast
    from o half have "dot [0.08, 0.02] [0.5, 0.5] \<le> dot [0.08, 0.02] x"
      unfolding opt by blast
    then have "1 / 2 \<le> a"
      unfolding x two_asset_return two_asset_return_half by simp
    with a1 have "a = 1 / 2"
      by simp
    then show "x = [0.5, 0.5]"
      by (simp add: x)
  next
    assume x: "x = [0.5, 0.5]"
    have "dot [0.08, 0.02] y \<le> dot [0.08, 0.02] x" if "socp_feasible P y" for y
    proof -
      from that obtain a where y: "y = [a, 1 - a]" and a1: "a \<le> 1 / 2"
        unfolding f by blast
      from a1 show ?thesis
        unfolding x y two_asset_return two_asset_return_half by simp
    qed
    with half show "socp_optimal P x"
      unfolding opt x by blast
  qed
qed

lemma two_asset_qp_feasible:
  "qp_feasible k [0.08, 0.02] (mat_neg (eye 2)) [0, 0] 0.05 w \<longleftrightarrow>
     (\<exists>a. w = [a, 1 - a] \<and> a \<le> 1
        \<and> (case k of ReturnEq \<Rightarrow> a = 1 / 2 | ReturnGe \<Rightarrow> 1 / 2 \<le> a))"
proof
  assume q: "qp_feasible k [0.08, 0.02] (mat_neg (eye 2)) [0, 0] 0.05 w"
  then have "length w = 2"
    by (simp add: qp_feasible_def)
  then obtain a b where w: "w = [a, b]"
    by (auto simp: length_2_conv)
  have len: "length [0.08, 0.02 :: real] = 2"
    by simp
  from q have lo: "vec_le (mat_vec (mat_neg (eye 2)) [a, b]) [0, 0]"
    and bud: "mat_vec (A_budget 2) [a, b] = b_budget"
    and ret: "case k of ReturnEq \<Rightarrow> dot [0.08, 0.02] [a, b] = 0.05
                | ReturnGe \<Rightarrow> 0.05 \<le> dot [0.08, 0.02] [a, b]"
    unfolding qp_feasible_def w len by blast+
  from bud have b: "b = 1 - a"
    by (simp add: budget_iff)
  from lo have "0 \<le> b"
    by (simp only: long_only_2)
  then have a1: "a \<le> 1"
    by (simp add: b)
  have "case k of ReturnEq \<Rightarrow> a = 1 / 2 | ReturnGe \<Rightarrow> 1 / 2 \<le> a"
    using ret unfolding b two_asset_return by (cases k) simp_all
  with w b a1 show "\<exists>a. w = [a, 1 - a] \<and> a \<le> 1
      \<and> (case k of ReturnEq \<Rightarrow> a = 1 / 2 | ReturnGe \<Rightarrow> 1 / 2 \<le> a)"
    by blast
next
  assume "\<exists>a. w = [a, 1 - a] \<and> a \<le> 1
      \<and> (case k of ReturnEq \<Rightarrow> a = 1 / 2 | ReturnGe \<Rightarrow> 1 / 2 \<le> a)"
  then obtain a where w: "w = [a, 1 - a]" and a1: "a \<le> 1"
    and k: "case k of ReturnEq \<Rightarrow> a = 1 / 2 | ReturnGe \<Rightarrow> 1 / 2 \<le> a"
    by blast
  from k have a0: "0 \<le> a"
    by (cases k) simp_all
  have "vec_le (mat_vec (mat_neg (eye 2)) [a, 1 - a]) [0, 0]"
    using a0 a1 by (simp only: long_only_2) simp
  moreover have "mat_vec (A_budget 2) [a, 1 - a] = b_budget"
    by (simp add: budget_iff)
  moreover have "case k of ReturnEq \<Rightarrow> dot [0.08, 0.02] [a, 1 - a] = 0.05
                | ReturnGe \<Rightarrow> 0.05 \<le> dot [0.08, 0.02] [a, 1 - a]"
    using k unfolding two_asset_return by (cases k) simp_all
  moreover have "length [a, 1 - a] = 2" and "length [0.08, 0.02 :: real] = 2"
    by simp_all
  ultimately show "qp_feasible k [0.08, 0.02] (mat_neg (eye 2)) [0, 0] 0.05 w"
    unfolding qp_feasible_def w by (simp only:)
qed

lemma quad_form_half: "quad_form [[0.04, 0], [0, 0.01]] [0.5, 0.5] = 1 / 80"
  by (simp only: quad_form_2) (simp add: power2_eq_square)

lemma variance_at_least:
  assumes "1 / 2 \<le> (a::real)"
  shows "1 / 80 \<le> a\<^sup>2 / 25 + (1 - a)\<^sup>2 / 100"
proof -
  have "0 \<le> (a - 1 / 2) * (a + 1 / 10)"
    using assms by (intro mult_nonneg_nonneg) simp_all
  then show ?thesis
    using variance_factor [of a] by linarith
qed

lemma two_asset_qp_optimal:
  "qp_optimal k [0.08, 0.02] [[0.04, 0], [0, 0.01]] (mat_neg (eye 2)) [0, 0] 0.05 w
     \<longleftrightarrow> w = [0.5, 0.5]"
proof -
  note f = two_asset_qp_feasible
  have half: "qp_feasible k [0.08, 0.02] (mat_neg (eye 2)) [0, 0] 0.05 [0.5, 0.5]"
    unfolding f by (intro exI [of _ "1 / 2"]) (cases k, simp_all)
  show ?thesis
  proof
    assume o: "qp_optimal k [0.08, 0.02] [[0.04, 0], [0, 0.01]] (mat_neg (eye 2)) [0, 0] 0.05 w"
    then obtain a where w: "w = [a, 1 - a]"
      and k: "case k of ReturnEq \<Rightarrow> a = 1 / 2 | ReturnGe \<Rightarrow> 1 / 2 \<le> a"
      unfolding qp_optimal_def f by blast
    from k have a: "1 / 2 \<le> a"
      by (cases k) simp_all
    from o half have "quad_form [[0.04, 0], [0, 0.01]] w
        \<le> quad_form [[0.04, 0], [0, 0.01]] [0.5, 0.5]"
      unfolding qp_optimal_def by blast
    then have "a\<^sup>2 / 25 + (1 - a)\<^sup>2 / 100 \<le> 1 / 80"
      unfolding w quad_form_half by (simp only: quad_form_2)
    then have "a \<le> 1 / 2"
      using a by (subst (asm) variance_bound_iff) simp_all
    with a have "a = 1 / 2"
      by simp
    then show "w = [0.5, 0.5]"
      by (simp add: w)
  next
    assume w: "w = [0.5, 0.5]"
    have "quad_form [[0.04, 0], [0, 0.01]] w \<le> quad_form [[0.04, 0], [0, 0.01]] v"
      if "qp_feasible k [0.08, 0.02] (mat_neg (eye 2)) [0, 0] 0.05 v" for v
    proof -
      from that obtain a where v: "v = [a, 1 - a]"
        and k: "case k of ReturnEq \<Rightarrow> a = 1 / 2 | ReturnGe \<Rightarrow> 1 / 2 \<le> a"
        unfolding f by blast
      from k have "1 / 2 \<le> a"
        by (cases k) simp_all
      then have "1 / 80 \<le> a\<^sup>2 / 25 + (1 - a)\<^sup>2 / 100"
        by (rule variance_at_least)
      then show ?thesis
        unfolding w v quad_form_half by (simp only: quad_form_2)
    qed
    with half show
      "qp_optimal k [0.08, 0.02] [[0.04, 0], [0, 0.01]] (mat_neg (eye 2)) [0, 0] 0.05 w"
      unfolding qp_optimal_def w by blast
  qed
qed

lemma two_asset_risk_target:
  "risk_target_of [[0.04, 0], [0, 0.01]] [0.5, 0.5] = Inr (sqrt 0.0125)"
proof -
  have "is_mat (length [0.5, 0.5 :: real]) (length [0.5, 0.5 :: real]) [[0.04, 0], [0, 0.01]]"
    by (simp add: is_mat_def)
  then have "np_quad [[0.04, 0], [0, 0.01]] [0.5, 0.5] = Inr (1 / 80)"
    by (simp only: np_quad_eq quad_form_half)
  then show ?thesis
    by (simp add: risk_target_of_def)
qed

lemma sqrt_0125_bounds: "0.1118 < sqrt 0.0125 \<and> sqrt 0.0125 < 0.1119"
proof
  show "0.1118 < sqrt 0.0125"
    by (rule real_less_rsqrt) (simp add: power2_eq_square)
  show "sqrt 0.0125 < 0.1119"
    by (rule real_less_lsqrt) (simp_all add: power2_eq_square)
qed

section \<open>The two-asset scenario is solved by equal weights\<close>

text \<open>
  Claim C7. For the two assets with means \<open>[0.08, 0.02]\<close>, covariance
  \<open>[[0.04, 0], [0, 0.01]]\<close>, long-only and fully-invested constraints and return target
  \<open>0.05\<close>: the quadratic target-return solution is \<open>[0.5, 0.5]\<close>, the only point that meets
  the budget, return-target and long-only constraints; its realized volatility is
  \<open>\<surd>0.0125 \<approx> 0.1118\<close>; and the risk-target cone program built with that volatility as
  its risk target has \<open>[0.5, 0.5]\<close> as its only solution.
\<close>

theorem two_asset_scenario:
  assumes "cholesky (mat_scale (scalar\<^sup>2) [[0.04, 0], [0, 0.01]]) = Inr U"
    and "is_mat 2 2 U"
    and "mat_mul 2 (mat_T 2 U) U = mat_scale (scalar\<^sup>2) [[0.04, 0], [0, 0.01]]"
  shows "(qp_feasible ReturnEq [0.08, 0.02] (mat_neg (eye 2)) [0, 0] 0.05 w \<longleftrightarrow> w = [0.5, 0.5])
       \<and> (qp_optimal k [0.08, 0.02] [[0.04, 0], [0, 0.01]] (mat_neg (eye 2)) [0, 0] 0.05 w
            \<longleftrightarrow> w = [0.5, 0.5])
       \<and> risk_target_of [[0.04, 0], [0, 0.01]] [0.5, 0.5] = Inr (sqrt 0.0125)
       \<and> 0.1118 < sqrt 0.0125 \<and> sqrt 0.0125 < 0.1119
       \<and> (\<exists>P. risk_program cholesky 2 [0.08, 0.02] [[0.04, 0], [0, 0.01]] (mat_neg (eye 2))
                 [0, 0] (sqrt 0.0125) = Inr P
              \<and> (socp_optimal P x \<longleftrightarrow> x = [0.5, 0.5])
              \<and> (socp_optimal P x \<longrightarrow>
                    e_star_risk_of \<lparr>status = Optimal, sol_x = Some x\<rparr> = Array [0.5, 0.5]))"
proof -
  have "qp_feasible ReturnEq [0.08, 0.02] (mat_neg (eye 2)) [0, 0] 0.05 w \<longleftrightarrow> w = [0.5, 0.5]"
    unfolding two_asset_qp_feasible by auto
  moreover obtain P where P: "risk_program cholesky 2 [0.08, 0.02] [[0.04, 0], [0, 0.01]]
      (mat_neg (eye 2)) [0, 0] (sqrt 0.0125) = Inr P"
    using risk_program_eq [where cholesky = cholesky and U = U and I = 2, OF assms(1) assms(2)]
    by blast
  moreover have o: "socp_optimal P x \<longleftrightarrow> x = [0.5, 0.5]"
    using P assms by (rule two_asset_socp_optimal)
  moreover have "socp_optimal P x \<longrightarrow>
      e_star_risk_of \<lparr>status = Optimal, sol_x = Some x\<rparr> = Array [0.5, 0.5]"
    unfolding o by (simp add: e_star_risk_of_def)
  ultimately show ?thesis
    using two_asset_qp_optimal [of k w] two_asset_risk_target sqrt_0125_bounds by blast
qed

theorem two_asset_scenario_witness:
  "(\<lambda>M. Inr [[20, 0], [0, 10]]) (mat_scale (scalar\<^sup>2) [[0.04, 0], [0, 0.01]])
       = (Inr [[20, 0], [0, 10]] :: error + mat)
     \<and> is_mat 2 2 [[20, 0], [0, 10]]
     \<and> mat_mul 2 (mat_T 2 [[20, 0], [0, 10]]) [[20, 0], [0, 10]]
         = mat_scale (scalar\<^sup>2) [[0.04, 0], [0, 0.01]]
     \<and> qp_optimal ReturnEq [0.08, 0.02] [[0.04, 0], [0, 0.01]] (mat_neg (eye 2)) [0, 0] 0.05
         [0.5, 0.5]
     \<and> socp_optimal
         \<lparr>cp_c = [-8, -2], cp_Gl = [[-1, 0], [0, -1]], cp_hl = [0, 0],
          cp_Gq = [[[0, 0], [-20, 0], [0, -10]]], cp_hq = [[sqrt 0.0125 * 100, 0, 0]],
          cp_A = [[1, 1]], cp_b = [1]\<rparr>
         [0.5, 0.5]"
proof -
  have h: "(\<lambda>M. Inr [[20, 0], [0, 10]]) (mat_scale (scalar\<^sup>2) [[0.04, 0], [0, 0.01]])
       = (Inr [[20, 0], [0, 10]] :: error + mat)"
    "is_mat 2 2 [[20, 0], [0, 10]]"
    "mat_mul 2 (mat_T 2 [[20, 0], [0, 10]]) [[20, 0], [0, 10]]
         = mat_scale (scalar\<^sup>2) [[0.04, 0], [0, 0.01]]"
    by (simp_all add: is_mat_def mat_mul_def mat_T_def vec_mat_def col_def mat_scale_def
        scalar_def numeral_2_eq_2)
  have p: "risk_program (\<lambda>M. Inr [[20, 0], [0, 10]]) 2 [0.08, 0.02] [[0.04, 0], [0, 0.01]]
      (mat_neg (eye 2)) [0, 0] (sqrt 0.0125)
    = Inr \<lparr>cp_c = [-8, -2], cp_Gl = [[-1, 0], [0, -1]], cp_hl = [0, 0],
          cp_Gq = [[[0, 0], [-20, 0], [0, -10]]], cp_hq = [[sqrt 0.0125 * 100, 0, 0]],
          cp_A = [[1, 1]], cp_b = [1]\<rparr>"
    unfolding risk_program_eq [where U = "[[20, 0], [0, 10]]" and I = 2, OF h(1) h(2)]
    by (simp add: scalar_def mat_neg_def eye_def hq_cone_eq A_budget_def b_budget_def
        numeral_2_eq_2)
  from two_asset_scenario [OF h, of "[0.5, 0.5]" ReturnEq "[0.5, 0.5]"] h show ?thesis
    unfolding p by blast
qed

section \<open>What is read from the solver's result\<close>

lemma socp_feasible_objective_update:
  "length c' = length (cp_c P) \<Longrightarrow> socp_feasible (P\<lparr>cp_c := c'\<rparr>) x = socp_feasible P x"
  by (simp add: socp_feasible_def)

lemma socp_optimal_unscaled:
  assumes "cp_c P = map (\<lambda>m. - m * s) ms" and "0 < s"
  shows "socp_optimal P x \<longleftrightarrow> socp_optimal (P\<lparr>cp_c := map uminus ms\<rparr>) x"
proof -
  have f: "socp_feasible (P\<lparr>cp_c := map uminus ms\<rparr>) y = socp_feasible P y" for y
    using assms(1) by (simp add: socp_feasible_objective_update)
  have o: "dot (cp_c P) y = s * dot (map uminus ms) y" for y
    unfolding assms(1) dot_objective by (simp add: dot_uminus_left)
  show ?thesis
    using assms(2) by (simp add: socp_optimal_def f o)
qed

lemma risk_program_objective_vector:
  "risk_program cholesky I means cov G h rho = Inr P \<Longrightarrow> cp_c P = map (\<lambda>m. - m * scalar) means"
  by (auto simp: risk_program_def split: sum.splits)

lemma te_program_objective_vector:
  "te_program cholesky I means cov G h bm rho tau = Inr P
     \<Longrightarrow> cp_c P = map (\<lambda>m. - m * scalar) (means2 I means)"
  by (auto simp: te_program_def split: sum.splits)

lemma te_program_eq:
  assumes "cholesky (mat_scale (scalar\<^sup>2) cov) = Inr U" and "is_mat I I U"
  shows "te_program cholesky I means cov G h bm rho tau =
           Inr \<lparr>cp_c = map (\<lambda>m. - m * scalar) (means2 I means), cp_Gl = G_te I G, cp_hl = h,
                cp_Gq = [replicate (2 * I) 0 # map (\<lambda>row. row @ replicate I 0) (mat_neg U),
                         replicate (2 * I) 0 # map (\<lambda>row. replicate I 0 @ row) (mat_neg U)],
                cp_hq = hq2 I rho tau, cp_A = A_te I, cp_b = b_te bm\<rparr>"
proof -
  have L: "is_mat I I (mat_neg U)"
    using assms(2) by (simp add: is_mat_neg)
  have "Gq2 I (mat_neg U) =
      Inr [replicate (2 * I) 0 # map (\<lambda>row. row @ replicate I 0) (mat_neg U),
           replicate (2 * I) 0 # map (\<lambda>row. replicate I 0 @ row) (mat_neg U)]"
    using L Gq_base_block_w [OF L] Gq_base_block_t [OF L] by (simp add: Gq2_def)
  then show ?thesis
    using assms(1) by (simp add: te_program_def L_factor_def)
qed

section \<open>The returned weights are the solver's vector\<close>

text \<open>
  Claim C8. The weights returned from a solve are the entries of the solver's solution
  vector, unchanged and in the same order (the first \<open>I\<close> entries in the tracking-error
  case), with no division by the conditioning scalar. The objective vector is multiplied
  by the positive constant \<open>scalar\<close> before the call, which leaves the minimisers of the
  cone program the same as those of the objective \<open>-means\<close>.
\<close>

theorem returned_weights_unscaled:
  assumes "risk_program cholesky I means cov G h rho = Inr P"
    and "te_program cholesky I means cov G h bm rho tau = Inr P2"
  shows "e_star_risk_of \<lparr>status = st, sol_x = Some x\<rparr> = Array x
       \<and> e_star_dual_risk_of I \<lparr>status = st, sol_x = Some y\<rparr> = Inr (take I y)
       \<and> 0 < scalar
       \<and> cp_c P = map (\<lambda>m. - m * scalar) means
       \<and> cp_c P2 = map (\<lambda>m. - m * scalar) (means2 I means)
       \<and> (socp_optimal P x \<longleftrightarrow> socp_optimal (P\<lparr>cp_c := map uminus means\<rparr>) x)
       \<and> (socp_optimal P2 y \<longleftrightarrow> socp_optimal (P2\<lparr>cp_c := map uminus (means2 I means)\<rparr>) y)"
proof -
  note c1 = risk_program_objective_vector [OF assms(1)]
  note c2 = te_program_objective_vector [OF assms(2)]
  have "socp_optimal P x \<longleftrightarrow> socp_optimal (P\<lparr>cp_c := map uminus means\<rparr>) x"
    using c1 scalar_pos by (rule socp_optimal_unscaled)
  moreover have
    "socp_optimal P2 y \<longleftrightarrow> socp_optimal (P2\<lparr>cp_c := map uminus (means2 I means)\<rparr>) y"
    using c2 scalar_pos by (rule socp_optimal_unscaled)
  moreover have "e_star_risk_of \<lparr>status = st, sol_x = Some x\<rparr> = Array x"
    by (simp add: e_star_risk_of_def)
  moreover have "e_star_dual_risk_of I \<lparr>status = st, sol_x = Some y\<rparr> = Inr (take I y)"
    by (simp add: e_star_dual_risk_of_def)
  ultimately show ?thesis
    using c1 c2 scalar_pos by blast
qed

theorem returned_weights_unscaled_witness:
  "risk_program (\<lambda>M. Inr [[20, 0], [0, 10]]) 2 [0.08, 0.02] [[0.04, 0], [0, 0.01]]
       (mat_neg (eye 2)) [0, 0] (sqrt 0.0125)
     = Inr \<lparr>cp_c = [-8, -2], cp_Gl = [[-1, 0], [0, -1]], cp_hl = [0, 0],
            cp_Gq = [[[0, 0], [-20, 0], [0, -10]]], cp_hq = [[sqrt 0.0125 * 100, 0, 0]],
            cp_A = [[1, 1]], cp_b = [1]\<rparr>
   \<and> te_program (\<lambda>M. Inr [[20, 0], [0, 10]]) 2 [0.08, 0.02] [[0.04, 0], [0, 0.01]]
       (mat_neg (eye 2)) [0, 0] [0.5, 0.5] (sqrt 0.0125) 0
     = Inr \<lparr>cp_c = [-8, -2, 0, 0], cp_Gl = [[-1, 0, 0, 0], [0, -1, 0, 0]], cp_hl = [0, 0],
            cp_Gq = [[[0, 0, 0, 0], [-20, 0, 0, 0], [0, -10, 0, 0]],
                     [[0, 0, 0, 0], [0, 0, -20, 0], [0, 0, 0, -10]]],
            cp_hq = [[sqrt 0.0125 * 100, 0, 0], [0, 0, 0]],
            cp_A = [[1, 1, 0, 0], [1, 0, -1, 0], [0, 1, 0, -1]], cp_b = [1, 0.5, 0.5]\<rparr>
   \<and> e_star_risk_of \<lparr>status = Optimal, sol_x = Some [0.5, 0.5]\<rparr> = Array [0.5, 0.5]
   \<and> e_star_dual_risk_of 2 \<lparr>status = Optimal, sol_x = Some [0.5, 0.5, 0, 0]\<rparr>
       = Inr [0.5, 0.5]
   \<and> socp_optimal
       \<lparr>cp_c = [-0.08, -0.02], cp_Gl = [[-1, 0], [0, -1]], cp_hl = [0, 0],
        cp_Gq = [[[0, 0], [-20, 0], [0, -10]]], cp_hq = [[sqrt 0.0125 * 100, 0, 0]],
        cp_A = [[1, 1]], cp_b = [1]\<rparr>
       [0.5, 0.5]"
proof -
  have h: "(\<lambda>M. Inr [[20, 0], [0, 10]]) (mat_scale (scalar\<^sup>2) [[0.04, 0], [0, 0.01]])
       = (Inr [[20, 0], [0, 10]] :: error + mat)"
    "is_mat 2 2 [[20, 0], [0, 10]]"
    "mat_mul 2 (mat_T 2 [[20, 0], [0, 10]]) [[20, 0], [0, 10]]
         = mat_scale (scalar\<^sup>2) [[0.04, 0], [0, 0.01]]"
    by (simp_all add: is_mat_def mat_mul_def mat_T_def vec_mat_def col_def mat_scale_def
        scalar_def numeral_2_eq_2)
  have p: "risk_program (\<lambda>M. Inr [[20, 0], [0, 10]]) 2 [0.08, 0.02] [[0.04, 0], [0, 0.01]]
      (mat_neg (eye 2)) [0, 0] (sqrt 0.0125)
    = Inr \<lparr>cp_c = [-8, -2], cp_Gl = [[-1, 0], [0, -1]], cp_hl = [0, 0],
          cp_Gq = [[[0, 0], [-20, 0], [0, -10]]], cp_hq = [[sqrt 0.0125 * 100, 0, 0]],
          cp_A = [[1, 1]], cp_b = [1]\<rparr>"
    unfolding risk_program_eq [where U = "[[20, 0], [0, 10]]" and I = 2, OF h(1) h(2)]
    by (simp add: scalar_def mat_neg_def eye_def hq_cone_eq A_budget_def b_budget_def
        numeral_2_eq_2)
  have p2: "te_program (\<lambda>M. Inr [[20, 0], [0, 10]]) 2 [0.08, 0.02] [[0.04, 0], [0, 0.01]]
       (mat_neg (eye 2)) [0, 0] [0.5, 0.5] (sqrt 0.0125) 0
     = Inr \<lparr>cp_c = [-8, -2, 0, 0], cp_Gl = [[-1, 0, 0, 0], [0, -1, 0, 0]], cp_hl = [0, 0],
            cp_Gq = [[[0, 0, 0, 0], [-20, 0, 0, 0], [0, -10, 0, 0]],
                     [[0, 0, 0, 0], [0, 0, -20, 0], [0, 0, 0, -10]]],
            cp_hq = [[sqrt 0.0125 * 100, 0, 0], [0, 0, 0]],
            cp_A = [[1, 1, 0, 0], [1, 0, -1, 0], [0, 1, 0, -1]], cp_b = [1, 0.5, 0.5]\<rparr>"
    unfolding te_program_eq [where U = "[[20, 0], [0, 10]]" and I = 2, OF h(1) h(2)]
    by (simp add: scalar_def mat_neg_def eye_def hq_cone_eq hq2_def A_te_def b_te_def
        G_te_def means2_def benchmark_relation_def hstack_def vstack_def zeros_def
        numeral_2_eq_2)
  have o: "socp_optimal
       \<lparr>cp_c = [-8, -2], cp_Gl = [[-1, 0], [0, -1]], cp_hl = [0, 0],
        cp_Gq = [[[0, 0], [-20, 0], [0, -10]]], cp_hq = [[sqrt 0.0125 * 100, 0, 0]],
        cp_A = [[1, 1]], cp_b = [1]\<rparr>
       [0.5, 0.5]"
    using two_asset_socp_optimal [OF p h, of "[0.5, 0.5]"] by simp
  have e: "e_star_risk_of \<lparr>status = Optimal, sol_x = Some [0.5, 0.5]\<rparr> = Array [0.5, 0.5]
     \<and> e_star_dual_risk_of 2 \<lparr>status = Optimal, sol_x = Some [0.5, 0.5, 0, 0]\<rparr>
       = Inr (take 2 [0.5, 0.5, 0, 0])
     \<and> socp_optimal
       (\<lparr>cp_c = [-8, -2], cp_Gl = [[-1, 0], [0, -1]], cp_hl = [0, 0],
        cp_Gq = [[[0, 0], [-20, 0], [0, -10]]], cp_hq = [[sqrt 0.0125 * 100, 0, 0]],
        cp_A = [[1, 1]], cp_b = [1]\<rparr>\<lparr>cp_c := map uminus [0.08, 0.02]\<rparr>)
       [0.5, 0.5]"
    using returned_weights_unscaled [OF p p2, of Optimal "[0.5, 0.5]" "[0.5, 0.5, 0, 0]"] o
    by blast
  have t: "take 2 [0.5, 0.5, 0, 0 :: real] = [0.5, 0.5]"
    by (simp add: numeral_2_eq_2)
  from e show ?thesis
    unfolding p p2 t by simp
qed

section \<open>The status of the result is never read\<close>

text \<open>
  Claim C6, as amended. The notebook does not read the status of the solver's result:
  what it takes as weights is the entry \<^verbatim>\<open>'x'\<close> of the result, whatever the status.
  When that entry is \<^verbatim>\<open>None\<close> no weight vector comes out (the target-risk cell
  holds an array of \<^verbatim>\<open>None\<close>, the tracking-error cell raises \<^verbatim>\<open>TypeError\<close>); when it
  is a vector, that vector is taken unchanged, also under a status that is not optimal.
\<close>

theorem solver_status_not_read:
  "(sol_x r = None \<longrightarrow>
      e_star_risk_of r = NoneArray \<and> e_star_dual_risk_of I r = Inl TypeError)
   \<and> (\<forall>v. sol_x r = Some v \<longrightarrow>
         e_star_risk_of r = Array v \<and> e_star_dual_risk_of I r = Inr (take I v))
   \<and> e_star_risk_of (r\<lparr>status := st\<rparr>) = e_star_risk_of r
   \<and> e_star_dual_risk_of I (r\<lparr>status := st\<rparr>) = e_star_dual_risk_of I r"
  by (simp add: e_star_risk_of_def e_star_dual_risk_of_def)

theorem solver_status_not_read_witness:
  "sol_x \<lparr>status = PrimalInfeasible, sol_x = None\<rparr> = None
   \<and> e_star_risk_of \<lparr>status = PrimalInfeasible, sol_x = None\<rparr> = NoneArray
   \<and> e_star_dual_risk_of 2 \<lparr>status = PrimalInfeasible, sol_x = None\<rparr> = Inl TypeError
   \<and> sol_x \<lparr>status = DualInfeasible, sol_x = Some [1, -1, 0, 0]\<rparr> = Some [1, -1, 0, 0]
   \<and> e_star_risk_of \<lparr>status = DualInfeasible, sol_x = Some [1, -1, 0, 0]\<rparr>
       = Array [1, -1, 0, 0]
   \<and> e_star_dual_risk_of 2 \<lparr>status = DualInfeasible, sol_x = Some [1, -1, 0, 0]\<rparr>
       = Inr [1, -1]"
proof -
  have n: "sol_x \<lparr>status = PrimalInfeasible, sol_x = None\<rparr> = None"
    and s: "sol_x \<lparr>status = DualInfeasible, sol_x = Some [1, -1, 0, 0]\<rparr> = Some [1, -1, 0, 0]"
    by simp_all
  have t: "take 2 [1, -1, 0, 0 :: real] = [1, -1]"
    by (simp add: numeral_2_eq_2)
  from solver_status_not_read [of "\<lparr>status = PrimalInfeasible, sol_x = None\<rparr>" 2] n
  have "e_star_risk_of \<lparr>status = PrimalInfeasible, sol_x = None\<rparr> = NoneArray
      \<and> e_star_dual_risk_of 2 \<lparr>status = PrimalInfeasible, sol_x = None\<rparr> = Inl TypeError"
    by blast
  moreover
  from solver_status_not_read [of "\<lparr>status = DualInfeasible, sol_x = Some [1, -1, 0, 0]\<rparr>" 2] s
  have "e_star_risk_of \<lparr>status = DualInfeasible, sol_x = Some [1, -1, 0, 0]\<rparr>
        = Array [1, -1, 0, 0]
      \<and> e_star_dual_risk_of 2 \<lparr>status = DualInfeasible, sol_x = Some [1, -1, 0, 0]\<rparr>
        = Inr (take 2 [1, -1, 0, 0])"
    by blast
  ultimately show ?thesis
    using n s unfolding t by blast
qed

text \<open>
  Claim C6, as stated, fails: a result whose status is not optimal and whose entry
  \<^verbatim>\<open>'x'\<close> holds the last iterates gives that vector as the weights.
\<close>

theorem non_optimal_status_counterexample:
  "status \<lparr>status = Unknown, sol_x = Some [0.3, 0.7]\<rparr> \<noteq> Optimal
   \<and> e_star_risk_of \<lparr>status = Unknown, sol_x = Some [0.3, 0.7]\<rparr> = Array [0.3, 0.7]
   \<and> e_star_dual_risk_of 1 \<lparr>status = Unknown, sol_x = Some [0.3, 0.7]\<rparr> = Inr [0.3]"
  by (simp add: e_star_risk_of_def e_star_dual_risk_of_def)

section \<open>The quadratic optimum is unique\<close>







section \<open>The target-risk program at the volatility of the quadratic optimum\<close>




lemma max_abs_difference_self: "w \<noteq> [] \<Longrightarrow> max_abs_difference w w = 0"
  by (simp add: max_abs_difference_def image_constant_conv lessThan_empty_iff)


lemma two_asset_cholesky:
  "(\<lambda>M. Inr [[20, 0], [0, 10]]) (mat_scale (scalar\<^sup>2) [[0.04, 0], [0, 0.01]])
       = (Inr [[20, 0], [0, 10]] :: error + mat)"
  "is_mat 2 2 [[20, 0], [0, 10]]"
  "mat_mul 2 (mat_T 2 [[20, 0], [0, 10]]) [[20, 0], [0, 10]]
       = mat_scale (scalar\<^sup>2) [[0.04, 0], [0, 0.01]]"
  by (simp_all add: is_mat_def mat_mul_def mat_T_def vec_mat_def col_def mat_scale_def
      scalar_def numeral_2_eq_2)

lemma two_asset_risk_program:
  "risk_program (\<lambda>M. Inr [[20, 0], [0, 10]]) 2 [m1, m2] [[0.04, 0], [0, 0.01]]
      (mat_neg (eye 2)) [0, 0] rho
    = Inr \<lparr>cp_c = [- m1 * 100, - m2 * 100], cp_Gl = [[-1, 0], [0, -1]], cp_hl = [0, 0],
          cp_Gq = [[[0, 0], [-20, 0], [0, -10]]], cp_hq = [[rho * 100, 0, 0]],
          cp_A = [[1, 1]], cp_b = [1]\<rparr>"
  unfolding risk_program_eq [where U = "[[20, 0], [0, 10]]" and I = 2,
      OF two_asset_cholesky(1) two_asset_cholesky(2)]
  by (simp add: scalar_def mat_neg_def eye_def hq_cone_eq A_budget_def b_budget_def
      numeral_2_eq_2)


section \<open>The target-risk solution is the quadratic solution\<close>



section \<open>A return target imposed as an equality below the minimum-variance return\<close>








lemma max_abs_difference_2:
  "max_abs_difference [a, b] [c, d] = max \<bar>a - c\<bar> \<bar>b - d\<bar>"
proof -
  have "(\<lambda>i. \<bar>[a, b] ! i - [c, d] ! i\<bar>) ` {..<length [a, b]} = {\<bar>a - c\<bar>, \<bar>b - d\<bar>}"
    by (auto simp: lessThan_Suc)
  then show ?thesis
    by (simp only: max_abs_difference_def) (simp add: max.commute)
qed


section \<open>What the tracking-error program asks of the extended vector\<close>

lemma map2_replicate_right:
  "length xs = n \<Longrightarrow> map2 f xs (replicate n z) = map (\<lambda>x. f x z) xs"
  by (induction xs arbitrary: n) auto

lemma mat_vec_G_te:
  assumes "is_mat m I G" and "length w = I"
  shows "mat_vec (G_te I G) (w @ t) = mat_vec G w"
proof -
  have "length G = m"
    using assms(1) by (rule is_mat_length)
  then have "G_te I G = map (\<lambda>row. row @ replicate I 0) G"
    by (simp add: G_te_def hstack_def zeros_def map2_replicate_right)
  moreover have "is_mat m (length w) G"
    using assms by simp
  ultimately show ?thesis
    by (simp add: mat_vec_pad_right)
qed

lemma cone_ok_cong: "mat_vec Gk x = mat_vec Gk' x' \<Longrightarrow> cone_ok Gk hk x = cone_ok Gk' hk x'"
  by (simp add: cone_ok_def)

lemma te_program_feasible:
  assumes P2: "te_program cholesky I means cov G h bm rho tau = Inr P2"
    and chol: "cholesky (mat_scale (scalar\<^sup>2) cov) = Inr U" and U: "is_mat I I U"
    and UU: "mat_mul I (mat_T I U) U = mat_scale (scalar\<^sup>2) cov"
    and cov: "is_mat I I cov" and means: "length means = I" and G: "is_mat m I G"
    and w: "length w = I" and t: "length t = I"
  shows "socp_feasible P2 (w @ t) \<longleftrightarrow>
           vec_le (mat_vec G w) h \<and> realized_volatility cov w \<le> rho
             \<and> realized_volatility cov t \<le> tau \<and> sum_list w = 1 \<and> vec_sub w t = bm"
proof -
  let ?L = "mat_neg U"
  let ?M0 = "replicate (2 * I) 0 # map (\<lambda>row. row @ replicate I 0) ?L"
  let ?M1 = "replicate (2 * I) 0 # map (\<lambda>row. replicate I 0 @ row) ?L"
  have P: "P2 = \<lparr>cp_c = map (\<lambda>m. - m * scalar) (means2 I means), cp_Gl = G_te I G, cp_hl = h,
                cp_Gq = [?M0, ?M1], cp_hq = hq2 I rho tau, cp_A = A_te I, cp_b = b_te bm\<rparr>"
    using te_program_eq [where cholesky = cholesky and cov = cov and U = U and I = I,
        OF chol U, of means G h bm rho tau] P2 by simp
  have L: "is_mat I (length w) ?L"
    using U w by (simp add: is_mat_neg)
  have m0: "mat_vec ?M0 (w @ t) = mat_vec (replicate I 0 # ?L) w"
    by (simp add: mat_vec_zero_row_Cons mat_vec_pad_right [OF L])
  have m1: "mat_vec ?M1 (w @ t) = mat_vec (replicate I 0 # ?L) t"
    by (simp add: mat_vec_zero_row_Cons mat_vec_pad_left [OF w])
  have c0: "cone_ok ?M0 (hq_cone I rho) (w @ t) \<longleftrightarrow> realized_volatility cov w \<le> rho"
    unfolding cone_ok_cong [OF m0] using U UU cov w by (rule cone_ok_risk_volatility)
  have c1: "cone_ok ?M1 (hq_cone I tau) (w @ t) \<longleftrightarrow> realized_volatility cov t \<le> tau"
    unfolding cone_ok_cong [OF m1] using U UU cov t by (rule cone_ok_risk_volatility)
  have g: "mat_vec (G_te I G) (w @ t) = mat_vec G w"
    using G w by (rule mat_vec_G_te)
  have a: "mat_vec (A_te I) (w @ t) = b_te bm \<longleftrightarrow> sum_list w = 1 \<and> vec_sub w t = bm"
    by (simp add: mat_vec_A_te [OF w t] b_te_def)
  have len: "length (w @ t) = length (cp_c P2)"
    using w t means by (simp add: P means2_def)
  show ?thesis
    unfolding socp_feasible_def
    using len by (simp add: P hq2_def c0 c1 g a)
qed

lemma te_program_length:
  assumes "te_program cholesky I means cov G h bm rho tau = Inr P2" and "length means = I"
    and "socp_feasible P2 y"
  shows "length y = 2 * I"
  using assms te_program_objective_vector [OF assms(1)]
  by (simp add: socp_feasible_def means2_def)

lemma te_program_objective:
  assumes "te_program cholesky I means cov G h bm rho tau = Inr P2"
    and "length means = I" and "length w = I"
  shows "dot (cp_c P2) (w @ t) = - scalar * dot means w"
proof -
  have "dot (cp_c P2) (w @ t) = dot (map (\<lambda>m. - m * scalar) (means2 I means)) (w @ t)"
    by (simp only: te_program_objective_vector [OF assms(1)])
  also have "\<dots> = - scalar * dot (means2 I means) (w @ t)"
    by (rule dot_objective)
  also have "\<dots> = - scalar * dot means w"
    using assms(2) assms(3) by (simp add: dot_means2)
  finally show ?thesis .
qed

lemma te_program_optimal_iff:
  assumes P: "risk_program cholesky I means cov G h rho = Inr P"
    and P2: "te_program cholesky I means cov G h bm rho tau = Inr P2"
    and chol: "cholesky (mat_scale (scalar\<^sup>2) cov) = Inr U" and U: "is_mat I I U"
    and UU: "mat_mul I (mat_T I U) U = mat_scale (scalar\<^sup>2) cov"
    and cov: "is_mat I I cov" and means: "length means = I" and G: "is_mat m I G"
    and bm: "length bm = I"
    and w: "socp_optimal P w"
    and tau: "realized_volatility cov (vec_sub w bm) \<le> tau"
  shows "socp_optimal P2 y \<longleftrightarrow>
           length y = 2 * I \<and> socp_optimal P (take I y)
             \<and> drop I y = vec_sub (take I y) bm
             \<and> realized_volatility cov (vec_sub (take I y) bm) \<le> tau"
proof -
  note f = risk_program_feasible [OF P chol U UU cov means]
  note opt = risk_program_optimal [OF P]
  note f2 = te_program_feasible [OF P2 chol U UU cov means G]
  note o2 = te_program_objective [OF P2 means]
  have split: "z = take I z @ drop I z \<and> length (take I z) = I \<and> length (drop I z) = I"
    if "length z = 2 * I" for z :: vec
    using that by simp
  have feas: "socp_feasible P2 z \<longleftrightarrow>
      length z = 2 * I \<and> socp_feasible P (take I z) \<and> drop I z = vec_sub (take I z) bm
        \<and> realized_volatility cov (vec_sub (take I z) bm) \<le> tau" for z
  proof (cases "length z = 2 * I")
    case False
    then show ?thesis
      using te_program_length [OF P2 means] by blast
  next
    case True
    define a where "a = take I z"
    define d where "d = drop I z"
    have z: "z = a @ d" and la: "length a = I" and ld: "length d = I"
      using split [OF True] by (simp_all add: a_def d_def)
    have "vec_sub a d = bm \<longleftrightarrow> d = vec_sub a bm"
      using la ld bm by (rule vec_sub_eq_iff)
    then have "socp_feasible P2 (a @ d) \<longleftrightarrow>
        socp_feasible P a \<and> d = vec_sub a bm \<and> realized_volatility cov (vec_sub a bm) \<le> tau"
      unfolding f2 [OF la ld] f using la by auto
    then show ?thesis
      using True unfolding a_def [symmetric] d_def [symmetric] z [symmetric] by simp
  qed
  have obj: "dot (cp_c P2) z = - scalar * dot means (take I z)" if "length z = 2 * I" for z
  proof -
    have "dot (cp_c P2) (take I z @ drop I z) = - scalar * dot means (take I z)"
      using that by (intro o2) simp
    then show ?thesis
      by simp
  qed
  have fw: "socp_feasible P w" and lw: "length w = I"
    using w unfolding opt f by blast+
  define y0 where "y0 = w @ vec_sub w bm"
  have y0: "socp_feasible P2 y0" and ty0: "take I y0 = w"
    using fw lw bm tau by (simp_all add: feas y0_def length_vec_sub)
  show ?thesis
  proof
    assume o: "socp_optimal P2 y"
    then have fy: "socp_feasible P2 y"
      by (simp add: socp_optimal_def)
    then have ly: "length y = 2 * I" and fa: "socp_feasible P (take I y)"
      and rest: "drop I y = vec_sub (take I y) bm"
        "realized_volatility cov (vec_sub (take I y) bm) \<le> tau"
      unfolding feas by blast+
    have "length y0 = 2 * I"
      using y0 unfolding feas by blast
    then have "- scalar * dot means (take I y) \<le> - scalar * dot means w"
      using o y0 obj [OF ly] obj [of y0] ty0 unfolding socp_optimal_def by fastforce
    then have "dot means w \<le> dot means (take I y)"
      using scalar_pos by simp
    moreover have "dot means v \<le> dot means w" if "socp_feasible P v" for v
      using w that unfolding opt by blast
    ultimately have "dot means v \<le> dot means (take I y)" if "socp_feasible P v" for v
      using that by fastforce
    with fa have "socp_optimal P (take I y)"
      unfolding opt by blast
    with ly rest show "length y = 2 * I \<and> socp_optimal P (take I y)
        \<and> drop I y = vec_sub (take I y) bm
        \<and> realized_volatility cov (vec_sub (take I y) bm) \<le> tau"
      by blast
  next
    assume a: "length y = 2 * I \<and> socp_optimal P (take I y)
        \<and> drop I y = vec_sub (take I y) bm
        \<and> realized_volatility cov (vec_sub (take I y) bm) \<le> tau"
    then have ly: "length y = 2 * I" and oa: "socp_optimal P (take I y)"
      by blast+
    from a have fy: "socp_feasible P2 y"
      unfolding feas opt by blast
    have "dot (cp_c P2) y \<le> dot (cp_c P2) z" if "socp_feasible P2 z" for z
    proof -
      from that have lz: "length z = 2 * I" and fz: "socp_feasible P (take I z)"
        unfolding feas by blast+
      from oa fz have "dot means (take I z) \<le> dot means (take I y)"
        unfolding opt by blast
      then show ?thesis
        using scalar_pos by (simp add: obj [OF ly] obj [OF lz])
    qed
    with fy show "socp_optimal P2 y"
      unfolding socp_optimal_def by blast
  qed
qed

lemma te_target_of_eq:
  assumes "is_mat I I cov" and "length w = I"
  shows "te_target_of I cov w = Inr (realized_tracking_error cov (e_bm I) w)"
proof -
  have b: "length (e_bm I) = I"
    by (simp add: e_bm_def)
  have s: "np_sub w (e_bm I) = Inr (vec_sub w (e_bm I))"
    using assms(2) b by (simp add: np_sub_same_length)
  have "length (vec_sub w (e_bm I)) = I"
    using assms(2) b by (simp add: length_vec_sub)
  then have q: "np_quad cov (vec_sub w (e_bm I)) = Inr (quad_form cov (vec_sub w (e_bm I)))"
    using assms(1) by (simp add: np_quad_eq)
  show ?thesis
    using tracking_error_eq [OF assms(2) b, of cov] by (simp add: te_target_of_def s q)
qed

lemma socp_feasible_nonempty:
  assumes "risk_program cholesky I means cov G h rho = Inr P" and "socp_feasible P w"
  shows "w \<noteq> []"
proof -
  have "cp_A P = A_budget I" and "cp_b P = b_budget"
    using assms(1) by (auto simp: risk_program_def split: sum.splits)
  then have "mat_vec (A_budget I) w = b_budget"
    using assms(2) by (simp add: socp_feasible_def)
  then show ?thesis
    by (auto simp: mat_vec_def A_budget_def b_budget_def)
qed

lemma two_asset_te_program:
  "te_program (\<lambda>M. Inr [[20, 0], [0, 10]]) 2 [m1, m2] [[0.04, 0], [0, 0.01]]
      (mat_neg (eye 2)) [0, 0] [b1, b2] rho tau
    = Inr \<lparr>cp_c = [- m1 * 100, - m2 * 100, 0, 0],
           cp_Gl = [[-1, 0, 0, 0], [0, -1, 0, 0]], cp_hl = [0, 0],
           cp_Gq = [[[0, 0, 0, 0], [-20, 0, 0, 0], [0, -10, 0, 0]],
                    [[0, 0, 0, 0], [0, 0, -20, 0], [0, 0, 0, -10]]],
           cp_hq = [[rho * 100, 0, 0], [tau * 100, 0, 0]],
           cp_A = [[1, 1, 0, 0], [1, 0, -1, 0], [0, 1, 0, -1]], cp_b = [1, b1, b2]\<rparr>"
  unfolding te_program_eq [where U = "[[20, 0], [0, 10]]" and I = 2,
      OF two_asset_cholesky(1) two_asset_cholesky(2)]
  by (simp add: scalar_def mat_neg_def eye_def hq_cone_eq hq2_def A_te_def b_te_def
      G_te_def means2_def benchmark_relation_def hstack_def vstack_def zeros_def
      numeral_2_eq_2)

lemma two_asset_shapes:
  "is_mat 2 2 [[0.04, 0], [0, 0.01]]" "is_mat 2 2 (mat_neg (eye 2))"
  by (simp_all add: is_mat_def mat_neg_def eye_def numeral_2_eq_2)

lemma two_asset_feasible_any_means:
  assumes "risk_program (\<lambda>M. Inr [[20, 0], [0, 10]]) 2 [m1, m2] [[0.04, 0], [0, 0.01]]
             (mat_neg (eye 2)) [0, 0] (sqrt 0.0125) = Inr P"
  shows "socp_feasible P x \<longleftrightarrow> (\<exists>a. x = [a, 1 - a] \<and> 0 \<le> a \<and> a \<le> 1 / 2)"
proof -
  have m: "length [m1, m2] = 2"
    by simp
  note f = risk_program_feasible [OF assms two_asset_cholesky two_asset_shapes(1) m]
  show ?thesis
  proof
    assume "socp_feasible P x"
    then have len: "length x = 2"
      and lo: "vec_le (mat_vec (mat_neg (eye 2)) x) [0, 0]"
      and vol: "realized_volatility [[0.04, 0], [0, 0.01]] x \<le> sqrt 0.0125"
      and bud: "sum_list x = 1"
      by (simp_all add: f)
    from len obtain a b where x: "x = [a, b]"
      by (auto simp: length_2_conv)
    from bud have b: "b = 1 - a"
      by (simp add: x)
    from lo have a0: "0 \<le> a"
      by (simp add: x long_only_2)
    from vol have "a\<^sup>2 / 25 + (1 - a)\<^sup>2 / 100 \<le> 1 / 80"
      unfolding x b by (simp only: volatility_2)
    then have "a \<le> 1 / 2"
      using a0 by (simp only: variance_bound_iff)
    with x b a0 show "\<exists>a. x = [a, 1 - a] \<and> 0 \<le> a \<and> a \<le> 1 / 2"
      by blast
  next
    assume "\<exists>a. x = [a, 1 - a] \<and> 0 \<le> a \<and> a \<le> 1 / 2"
    then obtain a where x: "x = [a, 1 - a]" and a0: "0 \<le> a" and a1: "a \<le> 1 / 2"
      by blast
    have "a\<^sup>2 / 25 + (1 - a)\<^sup>2 / 100 \<le> 1 / 80"
      using a0 a1 by (simp only: variance_bound_iff)
    then have "realized_volatility [[0.04, 0], [0, 0.01]] [a, 1 - a] \<le> sqrt 0.0125"
      by (simp only: volatility_2)
    moreover have "vec_le (mat_vec (mat_neg (eye 2)) [a, 1 - a]) [0, 0]"
      using a0 a1 by (simp only: long_only_2) simp
    moreover have "sum_list [a, 1 - a] = 1"
      by simp
    ultimately show "socp_feasible P x"
      unfolding f x by simp
  qed
qed

lemma equal_means_optimal:
  assumes "risk_program (\<lambda>M. Inr [[20, 0], [0, 10]]) 2 [0.05, 0.05] [[0.04, 0], [0, 0.01]]
             (mat_neg (eye 2)) [0, 0] (sqrt 0.0125) = Inr P"
  shows "socp_optimal P x \<longleftrightarrow> (\<exists>a. x = [a, 1 - a] \<and> 0 \<le> a \<and> a \<le> 1 / 2)"
proof -
  note f = two_asset_feasible_any_means [OF assms]
  have c: "dot [0.05, 0.05] y = 1 / 20" if "socp_feasible P y" for y
  proof -
    from that obtain a where "y = [a, 1 - a]"
      unfolding f by blast
    then show ?thesis
      by (simp add: field_simps)
  qed
  have "socp_optimal P x \<longleftrightarrow> socp_feasible P x"
  proof
    assume "socp_optimal P x"
    then show "socp_feasible P x"
      by (simp add: socp_optimal_def)
  next
    assume fx: "socp_feasible P x"
    have "dot [0.05, 0.05] y \<le> dot [0.05, 0.05] x" if "socp_feasible P y" for y
      unfolding c [OF that] c [OF fx] by simp
    with fx show "socp_optimal P x"
      unfolding risk_program_optimal [OF assms] by blast
  qed
  then show ?thesis
    by (simp only: f)
qed

lemma realized_volatility_zero: "realized_volatility [[0.04, 0], [0, 0.01]] [0, 0] = 0"
  by (simp only: realized_volatility_def quad_form_2) simp

lemma tracking_error_2:
  "realized_tracking_error [[0.04, 0], [0, 0.01]] [b1, b2] [a1, a2]
     = sqrt ((a1 - b1)\<^sup>2 / 25 + (a2 - b2)\<^sup>2 / 100)"
proof -
  have "realized_tracking_error [[0.04, 0], [0, 0.01]] [b1, b2] [a1, a2]
      = sqrt (quad_form [[0.04, 0], [0, 0.01]] (vec_sub [a1, a2] [b1, b2]))"
    by (rule tracking_error_eq [symmetric]) simp_all
  also have "vec_sub [a1, a2] [b1, b2] = [a1 - b1, a2 - b2]"
    by (simp add: vec_sub_def)
  finally show ?thesis
    by (simp only: quad_form_2)
qed

section \<open>The tracking-error solution is a target-risk solution\<close>

text \<open>
  Claim C2, as amended. With the solver read as an exact minimiser, for every benchmark
  vector: if \<open>w\<close> solves the target-risk program and the tracking-error program is built
  with the same risk target and with the realized tracking error of \<open>w\<close> against the
  benchmark as its tracking-error target, then \<open>[w; w - benchmark]\<close> solves the
  tracking-error program, and the first \<open>I\<close> entries of every solution of it solve the
  target-risk program, with the expected return of \<open>w\<close>. Where \<open>w\<close> is the only solution
  of the target-risk program, those entries are \<open>w\<close> itself, at maximum absolute
  difference zero, within \<open>10\<^sup>-\<^sup>6\<close>.
\<close>

theorem tracking_error_reproduces_target_risk_solution:
  assumes "risk_program cholesky I means cov G h rho = Inr P"
    and "te_program cholesky I means cov G h bm rho tau = Inr P2"
    and "cholesky (mat_scale (scalar\<^sup>2) cov) = Inr U" and "is_mat I I U"
    and "mat_mul I (mat_T I U) U = mat_scale (scalar\<^sup>2) cov"
    and "is_mat I I cov" and "length means = I" and "is_mat m I G" and "length bm = I"
    and "socp_optimal P w"
    and "tau = realized_tracking_error cov bm w"
  shows "socp_optimal P2 (w @ vec_sub w bm)
       \<and> te_target_of I cov w = Inr (realized_tracking_error cov (e_bm I) w)
       \<and> (\<forall>y. socp_optimal P2 y \<longrightarrow>
             socp_optimal P (take I y) \<and> dot means (take I y) = dot means w
               \<and> e_star_dual_risk_of I \<lparr>status = Optimal, sol_x = Some y\<rparr> = Inr (take I y)
               \<and> ((\<forall>v. socp_optimal P v \<longrightarrow> v = w) \<longrightarrow>
                     take I y = w \<and> max_abs_difference (take I y) w = 0
                       \<and> max_abs_difference (take I y) w \<le> 1 / 1000000))"
proof -
  note opt = risk_program_optimal [OF assms(1)]
  have fw: "socp_feasible P w"
    using assms(10) by (simp add: socp_optimal_def)
  then have lw: "length w = I"
    by (simp add: risk_program_feasible [OF assms(1) assms(3) assms(4) assms(5) assms(6) assms(7)])
  have ne: "w \<noteq> []"
    using assms(1) fw by (rule socp_feasible_nonempty)
  have "realized_tracking_error cov bm w = realized_volatility cov (vec_sub w bm)"
    using tracking_error_eq [OF lw assms(9), of cov] by (simp add: realized_volatility_def)
  then have tau: "realized_volatility cov (vec_sub w bm) \<le> tau"
    by (simp add: assms(11))
  note iff = te_program_optimal_iff [OF assms(1) assms(2) assms(3) assms(4) assms(5) assms(6)
      assms(7) assms(8) assms(9) assms(10) tau]
  have ext: "socp_optimal P2 (w @ vec_sub w bm)"
    unfolding iff using lw assms(9) assms(10) tau by (simp add: length_vec_sub)
  have te: "te_target_of I cov w = Inr (realized_tracking_error cov (e_bm I) w)"
    using assms(6) lw by (rule te_target_of_eq)
  have each: "socp_optimal P (take I y) \<and> dot means (take I y) = dot means w
      \<and> e_star_dual_risk_of I \<lparr>status = Optimal, sol_x = Some y\<rparr> = Inr (take I y)
      \<and> ((\<forall>v. socp_optimal P v \<longrightarrow> v = w) \<longrightarrow>
            take I y = w \<and> max_abs_difference (take I y) w = 0
              \<and> max_abs_difference (take I y) w \<le> 1 / 1000000)"
    if y: "socp_optimal P2 y" for y
  proof -
    from y have o: "socp_optimal P (take I y)"
      unfolding iff by blast
    have "dot means (take I y) \<le> dot means w" and "dot means w \<le> dot means (take I y)"
      using o assms(10) unfolding opt by blast+
    then have d: "dot means (take I y) = dot means w"
      by simp
    have e: "e_star_dual_risk_of I \<lparr>status = Optimal, sol_x = Some y\<rparr> = Inr (take I y)"
      by (simp add: e_star_dual_risk_of_def)
    have u: "take I y = w \<and> max_abs_difference (take I y) w = 0
        \<and> max_abs_difference (take I y) w \<le> 1 / 1000000"
      if "\<forall>v. socp_optimal P v \<longrightarrow> v = w"
    proof -
      from that o have "take I y = w"
        by blast
      then show ?thesis
        using max_abs_difference_self [OF ne] by simp
    qed
    from o d e u show ?thesis
      by blast
  qed
  from ext te each show ?thesis
    by blast
qed

theorem tracking_error_reproduces_target_risk_solution_witness:
  "risk_program (\<lambda>M. Inr [[20, 0], [0, 10]]) 2 [0.08, 0.02] [[0.04, 0], [0, 0.01]]
      (mat_neg (eye 2)) [0, 0] (sqrt 0.0125)
    = Inr \<lparr>cp_c = [- 0.08 * 100, - 0.02 * 100], cp_Gl = [[-1, 0], [0, -1]], cp_hl = [0, 0],
          cp_Gq = [[[0, 0], [-20, 0], [0, -10]]], cp_hq = [[sqrt 0.0125 * 100, 0, 0]],
          cp_A = [[1, 1]], cp_b = [1]\<rparr>
   \<and> te_program (\<lambda>M. Inr [[20, 0], [0, 10]]) 2 [0.08, 0.02] [[0.04, 0], [0, 0.01]]
      (mat_neg (eye 2)) [0, 0] [0.2, 0.8] (sqrt 0.0125) (sqrt 0.0045)
    = Inr \<lparr>cp_c = [- 0.08 * 100, - 0.02 * 100, 0, 0],
           cp_Gl = [[-1, 0, 0, 0], [0, -1, 0, 0]], cp_hl = [0, 0],
           cp_Gq = [[[0, 0, 0, 0], [-20, 0, 0, 0], [0, -10, 0, 0]],
                    [[0, 0, 0, 0], [0, 0, -20, 0], [0, 0, 0, -10]]],
           cp_hq = [[sqrt 0.0125 * 100, 0, 0], [sqrt 0.0045 * 100, 0, 0]],
           cp_A = [[1, 1, 0, 0], [1, 0, -1, 0], [0, 1, 0, -1]], cp_b = [1, 0.2, 0.8]\<rparr>
   \<and> is_mat 2 2 [[0.04, 0], [0, 0.01]] \<and> is_mat 2 2 (mat_neg (eye 2))
   \<and> socp_optimal
        \<lparr>cp_c = [- 0.08 * 100, - 0.02 * 100], cp_Gl = [[-1, 0], [0, -1]], cp_hl = [0, 0],
          cp_Gq = [[[0, 0], [-20, 0], [0, -10]]], cp_hq = [[sqrt 0.0125 * 100, 0, 0]],
          cp_A = [[1, 1]], cp_b = [1]\<rparr>
        [0.5, 0.5]
   \<and> sqrt 0.0045 = realized_tracking_error [[0.04, 0], [0, 0.01]] [0.2, 0.8] [0.5, 0.5]
   \<and> socp_optimal
        \<lparr>cp_c = [- 0.08 * 100, - 0.02 * 100, 0, 0],
           cp_Gl = [[-1, 0, 0, 0], [0, -1, 0, 0]], cp_hl = [0, 0],
           cp_Gq = [[[0, 0, 0, 0], [-20, 0, 0, 0], [0, -10, 0, 0]],
                    [[0, 0, 0, 0], [0, 0, -20, 0], [0, 0, 0, -10]]],
           cp_hq = [[sqrt 0.0125 * 100, 0, 0], [sqrt 0.0045 * 100, 0, 0]],
           cp_A = [[1, 1, 0, 0], [1, 0, -1, 0], [0, 1, 0, -1]], cp_b = [1, 0.2, 0.8]\<rparr>
        [0.5, 0.5, 0.3, -0.3]
   \<and> take 2 [0.5, 0.5, 0.3, -0.3] = [0.5, 0.5 :: real]
   \<and> max_abs_difference (take 2 [0.5, 0.5, 0.3, -0.3]) [0.5, 0.5] \<le> 1 / 1000000"
proof -
  note p = two_asset_risk_program [of "0.08" "0.02" "sqrt 0.0125"]
  note p2 = two_asset_te_program [of "0.08" "0.02" "0.2" "0.8" "sqrt 0.0125" "sqrt 0.0045"]
  have len: "length [0.08, 0.02 :: real] = 2" "length [0.2, 0.8 :: real] = 2"
    by simp_all
  have o: "socp_optimal
        \<lparr>cp_c = [- 0.08 * 100, - 0.02 * 100], cp_Gl = [[-1, 0], [0, -1]], cp_hl = [0, 0],
          cp_Gq = [[[0, 0], [-20, 0], [0, -10]]], cp_hq = [[sqrt 0.0125 * 100, 0, 0]],
          cp_A = [[1, 1]], cp_b = [1]\<rparr> x \<longleftrightarrow> x = [0.5, 0.5]" for x
    using p two_asset_cholesky by (rule two_asset_socp_optimal)
  have t: "sqrt 0.0045 = realized_tracking_error [[0.04, 0], [0, 0.01]] [0.2, 0.8] [0.5, 0.5]"
    unfolding tracking_error_2 by (simp add: power2_eq_square)
  have v: "[0.5, 0.5] @ vec_sub [0.5, 0.5] [0.2, 0.8] = [0.5, 0.5, 0.3, -0.3 :: real]"
    by (simp add: vec_sub_def)
  note inst = tracking_error_reproduces_target_risk_solution [OF p p2 two_asset_cholesky
      two_asset_shapes(1) len(1) two_asset_shapes(2) len(2) o [THEN iffD2, OF refl] t]
  from inst have y: "socp_optimal
        \<lparr>cp_c = [- 0.08 * 100, - 0.02 * 100, 0, 0],
           cp_Gl = [[-1, 0, 0, 0], [0, -1, 0, 0]], cp_hl = [0, 0],
           cp_Gq = [[[0, 0, 0, 0], [-20, 0, 0, 0], [0, -10, 0, 0]],
                    [[0, 0, 0, 0], [0, 0, -20, 0], [0, 0, 0, -10]]],
           cp_hq = [[sqrt 0.0125 * 100, 0, 0], [sqrt 0.0045 * 100, 0, 0]],
           cp_A = [[1, 1, 0, 0], [1, 0, -1, 0], [0, 1, 0, -1]], cp_b = [1, 0.2, 0.8]\<rparr>
        [0.5, 0.5, 0.3, -0.3]"
    unfolding v by blast
  from inst y o have "take 2 [0.5, 0.5, 0.3, -0.3] = [0.5, 0.5 :: real]
      \<and> max_abs_difference (take 2 [0.5, 0.5, 0.3, -0.3]) [0.5, 0.5] \<le> 1 / 1000000"
    by blast
  with p p2 two_asset_shapes o [THEN iffD2, OF refl] t y show ?thesis
    by blast
qed

text \<open>
  Claim C2, as stated, fails where the target-risk program has more than one solution:
  with equal means \<open>[0.05, 0.05]\<close> every feasible portfolio solves it, among them
  \<open>[0.2, 0.8]\<close>; the tracking-error program built with the realized tracking error of
  \<open>[0.2, 0.8]\<close> against the equal-weight benchmark is solved by \<open>[0.5, 0.5, 0, 0]\<close>, whose
  first two entries differ from \<open>[0.2, 0.8]\<close> by \<open>0.3\<close>.
\<close>

theorem equal_means_counterexample:
  "risk_program (\<lambda>M. Inr [[20, 0], [0, 10]]) 2 [0.05, 0.05] [[0.04, 0], [0, 0.01]]
      (mat_neg (eye 2)) [0, 0] (sqrt 0.0125)
    = Inr \<lparr>cp_c = [- 0.05 * 100, - 0.05 * 100], cp_Gl = [[-1, 0], [0, -1]], cp_hl = [0, 0],
          cp_Gq = [[[0, 0], [-20, 0], [0, -10]]], cp_hq = [[sqrt 0.0125 * 100, 0, 0]],
          cp_A = [[1, 1]], cp_b = [1]\<rparr>
   \<and> socp_optimal
        \<lparr>cp_c = [- 0.05 * 100, - 0.05 * 100], cp_Gl = [[-1, 0], [0, -1]], cp_hl = [0, 0],
          cp_Gq = [[[0, 0], [-20, 0], [0, -10]]], cp_hq = [[sqrt 0.0125 * 100, 0, 0]],
          cp_A = [[1, 1]], cp_b = [1]\<rparr>
        [0.2, 0.8]
   \<and> e_bm 2 = [0.5, 0.5]
   \<and> te_target_of 2 [[0.04, 0], [0, 0.01]] [0.2, 0.8] = Inr (sqrt 0.0045)
   \<and> te_program (\<lambda>M. Inr [[20, 0], [0, 10]]) 2 [0.05, 0.05] [[0.04, 0], [0, 0.01]]
      (mat_neg (eye 2)) [0, 0] (e_bm 2) (sqrt 0.0125) (sqrt 0.0045)
    = Inr \<lparr>cp_c = [- 0.05 * 100, - 0.05 * 100, 0, 0],
           cp_Gl = [[-1, 0, 0, 0], [0, -1, 0, 0]], cp_hl = [0, 0],
           cp_Gq = [[[0, 0, 0, 0], [-20, 0, 0, 0], [0, -10, 0, 0]],
                    [[0, 0, 0, 0], [0, 0, -20, 0], [0, 0, 0, -10]]],
           cp_hq = [[sqrt 0.0125 * 100, 0, 0], [sqrt 0.0045 * 100, 0, 0]],
           cp_A = [[1, 1, 0, 0], [1, 0, -1, 0], [0, 1, 0, -1]], cp_b = [1, 0.5, 0.5]\<rparr>
   \<and> socp_optimal
        \<lparr>cp_c = [- 0.05 * 100, - 0.05 * 100, 0, 0],
           cp_Gl = [[-1, 0, 0, 0], [0, -1, 0, 0]], cp_hl = [0, 0],
           cp_Gq = [[[0, 0, 0, 0], [-20, 0, 0, 0], [0, -10, 0, 0]],
                    [[0, 0, 0, 0], [0, 0, -20, 0], [0, 0, 0, -10]]],
           cp_hq = [[sqrt 0.0125 * 100, 0, 0], [sqrt 0.0045 * 100, 0, 0]],
           cp_A = [[1, 1, 0, 0], [1, 0, -1, 0], [0, 1, 0, -1]], cp_b = [1, 0.5, 0.5]\<rparr>
        [0.5, 0.5, 0, 0]
   \<and> e_star_dual_risk_of 2 \<lparr>status = Optimal, sol_x = Some [0.5, 0.5, 0, 0]\<rparr>
        = Inr [0.5, 0.5]
   \<and> max_abs_difference [0.5, 0.5] [0.2, 0.8] = 0.3
   \<and> \<not> max_abs_difference [0.5, 0.5] [0.2, 0.8] \<le> 1 / 1000000"
proof -
  note p = two_asset_risk_program [of "0.05" "0.05" "sqrt 0.0125"]
  have bm: "e_bm 2 = [0.5, 0.5]"
    by (simp add: e_bm_def numeral_2_eq_2)
  note p2 = two_asset_te_program [of "0.05" "0.05" "0.5" "0.5" "sqrt 0.0125" "sqrt 0.0045"]
  note o = equal_means_optimal [OF p]
  have w: "socp_optimal
        \<lparr>cp_c = [- 0.05 * 100, - 0.05 * 100], cp_Gl = [[-1, 0], [0, -1]], cp_hl = [0, 0],
          cp_Gq = [[[0, 0], [-20, 0], [0, -10]]], cp_hq = [[sqrt 0.0125 * 100, 0, 0]],
          cp_A = [[1, 1]], cp_b = [1]\<rparr>
        [0.2, 0.8]"
    unfolding o by (intro exI [of _ "1 / 5"]) simp
  have h: "socp_optimal
        \<lparr>cp_c = [- 0.05 * 100, - 0.05 * 100], cp_Gl = [[-1, 0], [0, -1]], cp_hl = [0, 0],
          cp_Gq = [[[0, 0], [-20, 0], [0, -10]]], cp_hq = [[sqrt 0.0125 * 100, 0, 0]],
          cp_A = [[1, 1]], cp_b = [1]\<rparr>
        [0.5, 0.5]"
    unfolding o by (intro exI [of _ "1 / 2"]) simp
  have te: "realized_tracking_error [[0.04, 0], [0, 0.01]] [0.5, 0.5] [0.2, 0.8] = sqrt 0.0045"
    unfolding tracking_error_2 by (simp add: power2_eq_square)
  have len: "length [0.05, 0.05 :: real] = 2" "length [0.5, 0.5 :: real] = 2"
    "length [0.2, 0.8 :: real] = 2"
    by simp_all
  have tt: "te_target_of 2 [[0.04, 0], [0, 0.01]] [0.2, 0.8] = Inr (sqrt 0.0045)"
    unfolding te_target_of_eq [OF two_asset_shapes(1) len(3)] bm te by (rule refl)
  have tau: "realized_volatility [[0.04, 0], [0, 0.01]] (vec_sub [0.2, 0.8] [0.5, 0.5])
      \<le> sqrt 0.0045"
    unfolding realized_volatility_def
      tracking_error_eq [OF len(3) len(2), of "[[0.04, 0], [0, 0.01]]"] te
    by (rule order_refl)
  note iff = te_program_optimal_iff [OF p p2 two_asset_cholesky two_asset_shapes(1) len(1)
      two_asset_shapes(2) len(2) w tau]
  have t2: "take 2 [0.5, 0.5, 0, 0 :: real] = [0.5, 0.5]"
    and d2: "drop 2 [0.5, 0.5, 0, 0 :: real] = [0, 0]"
    and l4: "length [0.5, 0.5, 0, 0 :: real] = 2 * 2"
    and vs: "vec_sub [0.5, 0.5] [0.5, 0.5] = [0, 0 :: real]"
    by (simp_all add: numeral_2_eq_2 vec_sub_def)
  have z: "realized_volatility [[0.04, 0], [0, 0.01]] [0, 0] \<le> sqrt 0.0045"
    unfolding realized_volatility_zero by simp
  have y: "socp_optimal
        \<lparr>cp_c = [- 0.05 * 100, - 0.05 * 100, 0, 0],
           cp_Gl = [[-1, 0, 0, 0], [0, -1, 0, 0]], cp_hl = [0, 0],
           cp_Gq = [[[0, 0, 0, 0], [-20, 0, 0, 0], [0, -10, 0, 0]],
                    [[0, 0, 0, 0], [0, 0, -20, 0], [0, 0, 0, -10]]],
           cp_hq = [[sqrt 0.0125 * 100, 0, 0], [sqrt 0.0045 * 100, 0, 0]],
           cp_A = [[1, 1, 0, 0], [1, 0, -1, 0], [0, 1, 0, -1]], cp_b = [1, 0.5, 0.5]\<rparr>
        [0.5, 0.5, 0, 0]"
    unfolding iff t2 d2 vs using l4 h z by blast
  have e: "e_star_dual_risk_of 2 \<lparr>status = Optimal, sol_x = Some [0.5, 0.5, 0, 0]\<rparr>
        = Inr [0.5, 0.5]"
    by (simp add: e_star_dual_risk_of_def numeral_2_eq_2)
  have m: "max_abs_difference [0.5, 0.5] [0.2, 0.8] = 0.3"
    by (simp add: max_abs_difference_2)
  have n: "\<not> max_abs_difference [0.5, 0.5] [0.2, 0.8] \<le> 1 / 1000000"
    by (simp add: max_abs_difference_2)
  show ?thesis
    using p w bm tt p2 [folded bm] y [folded bm] e m n
    unfolding bm by blast
qed

end
